theory Spec2Isabelle
  imports
    Complex_Main
    "HOL-Library.Char_ord"
    "HOL-Library.List_Lexorder"
    "HOL-Library.Sublist"
begin

section \<open>Strings of the host language\<close>

text \<open>
  A source string is a \<^typ>\<open>string\<close>: a list of code units below 256.  The helpers
  follow the built-in string methods the sources call: \<open>trim\<close>, \<open>toLowerCase\<close>,
  \<open>includes\<close>, \<open>startsWith\<close>, \<open>Array.prototype.join\<close>, the default array
  \<open>sort\<close> (code-unit order) and a \<open>Set\<close> built from an array (first occurrences,
  in insertion order).
\<close>

definition is_ws :: "char \<Rightarrow> bool" where
  "is_ws c = (of_char c \<in> {9, 10, 11, 12, 13, 32, 160 :: nat})"

definition trim :: "string \<Rightarrow> string" where
  "trim s = rev (dropWhile is_ws (rev (dropWhile is_ws s)))"

definition is_upper :: "char \<Rightarrow> bool" where
  "is_upper c =
     (let n = (of_char c :: nat)
      in (65 \<le> n \<and> n \<le> 90) \<or> (192 \<le> n \<and> n \<le> 222 \<and> n \<noteq> 215))"

definition lower_char :: "char \<Rightarrow> char" where
  "lower_char c = (if is_upper c then char_of (of_char c + 32 :: nat) else c)"

definition toLowerCase :: "string \<Rightarrow> string" where
  "toLowerCase s = map lower_char s"

definition startsWith :: "string \<Rightarrow> string \<Rightarrow> bool" where
  "startsWith s p = (take (length p) s = p)"

fun includes_str :: "string \<Rightarrow> string \<Rightarrow> bool" where
  "includes_str [] p = (p = [])"
| "includes_str (c # cs) p = (startsWith (c # cs) p \<or> includes_str cs p)"

fun join :: "string \<Rightarrow> string list \<Rightarrow> string" where
  "join sep [] = []"
| "join sep [x] = x"
| "join sep (x # y # ys) = x @ sep @ join sep (y # ys)"

fun uniq :: "'a list \<Rightarrow> 'a list" where
  "uniq [] = []"
| "uniq (x # xs) = x # uniq (removeAll x xs)"

definition js_sort :: "string list \<Rightarrow> string list" where
  "js_sort xs = sort xs"

section \<open>JSON values and their serializations\<close>

text \<open>
  A value of the host language as far as serialization sees it.  Numbers are the
  integers (an integer-valued number below \<open>10^21\<close> prints as its decimal digits);
  an object is the list of its own properties in insertion order, the first binding
  of a key being the property.
\<close>

datatype jsval =
    JUndefined
  | JNull
  | JBool bool
  | JNum int
  | JStr string
  | JArr "jsval list"
  | JObj "(string \<times> jsval) list"

definition digit_char :: "nat \<Rightarrow> char" where
  "digit_char d = char_of (48 + d)"

fun show_nat :: "nat \<Rightarrow> string" where
  "show_nat n = (if n < 10 then [digit_char n] else show_nat (n div 10) @ [digit_char (n mod 10)])"

declare show_nat.simps [simp del]

definition show_int :: "int \<Rightarrow> string" where
  "show_int i = (if i < 0 then CHR ''-'' # show_nat (nat (- i)) else show_nat (nat i))"

definition hex_char :: "nat \<Rightarrow> char" where
  "hex_char d = (if d < 10 then char_of (48 + d) else char_of (87 + d))"

text \<open>\<open>QuoteJSONString\<close>: the two-character escapes, \<open>\u00XX\<close> for the other control
  characters, every other code unit as it is.\<close>

definition quote_char :: "char \<Rightarrow> string" where
  "quote_char c =
     (let n = (of_char c :: nat)
      in if n = 34 then [CHR 0x5C, CHR 0x22]
         else if n = 92 then [CHR 0x5C, CHR 0x5C]
         else if n = 8 then [CHR 0x5C, CHR ''b'']
         else if n = 12 then [CHR 0x5C, CHR ''f'']
         else if n = 10 then [CHR 0x5C, CHR ''n'']
         else if n = 13 then [CHR 0x5C, CHR ''r'']
         else if n = 9 then [CHR 0x5C, CHR ''t'']
         else if n < 32 then [CHR 0x5C, CHR ''u'', CHR ''0'', CHR ''0'', hex_char (n div 16), hex_char (n mod 16)]
         else [c])"

definition json_quote :: "string \<Rightarrow> string" where
  "json_quote s = CHR 0x22 # concat (map quote_char s) @ [CHR 0x22]"

fun own_props :: "(string \<times> 'a) list \<Rightarrow> (string \<times> 'a) list" where
  "own_props [] = []"
| "own_props (p # ps) = p # own_props (filter (\<lambda>q. fst q \<noteq> fst p) ps)"

text \<open>
  \<open>JSON.stringify\<close> without indentation.  \<open>None\<close> is the result \<open>undefined\<close>;
  an undefined array element prints as \<open>null\<close>, an undefined property is left out.
\<close>

fun JSON_stringify :: "jsval \<Rightarrow> string option" where
  "JSON_stringify JUndefined = None"
| "JSON_stringify JNull = Some ''null''"
| "JSON_stringify (JBool b) = Some (if b then ''true'' else ''false'')"
| "JSON_stringify (JNum n) = Some (show_int n)"
| "JSON_stringify (JStr s) = Some (json_quote s)"
| "JSON_stringify (JArr xs) =
     Some (''['' @ join '','' (map (\<lambda>x. case JSON_stringify x of None \<Rightarrow> ''null'' | Some t \<Rightarrow> t) xs) @ '']'')"
| "JSON_stringify (JObj fs) =
     Some (''{'' @ join '',''
        (concat (map (\<lambda>p. case snd p of None \<Rightarrow> [] | Some t \<Rightarrow> [json_quote (fst p) @ '':'' @ t])
           (own_props (map (\<lambda>p. (fst p, JSON_stringify (snd p))) fs)))) @ ''}'')"

text \<open>
  \<open>stableStringify\<close> of \<open>utils.ts\<close>.  A value that is not an object goes to
  \<open>JSON.stringify\<close>; an array joins the results for its elements (\<open>join\<close> prints an
  undefined one as the empty string); an object prints its sorted keys, each with the
  result for its value spliced into a template (an undefined one reads
  \<open>undefined\<close>).
\<close>

fun stableStringify :: "jsval \<Rightarrow> string option" where
  "stableStringify (JArr xs) =
     Some (''['' @ join '','' (map (\<lambda>x. case stableStringify x of None \<Rightarrow> [] | Some t \<Rightarrow> t) xs) @ '']'')"
| "stableStringify (JObj fs) =
     (let rendered = map (\<lambda>p. (fst p, case stableStringify (snd p) of None \<Rightarrow> ''undefined'' | Some t \<Rightarrow> t)) fs;
          keys = js_sort (uniq (map fst fs));
          parts = map (\<lambda>key. json_quote key @ '':'' @
                    (case map_of rendered key of None \<Rightarrow> ''undefined'' | Some t \<Rightarrow> t)) keys
      in Some (''{'' @ join '','' parts @ ''}''))"
| "stableStringify v = JSON_stringify v"

section \<open>Reading JSON text\<close>

text \<open>
  \<open>JSON.parse\<close> as a scanner that turns the text into tokens, one code unit at a
  time, and an automaton with a stack of open arrays and objects that builds the value
  from the tokens.  \<open>None\<close> is the \<open>SyntaxError\<close>.  A numeral with a fraction or an
  exponent and an escape \<open>\uXXXX\<close> above \<open>00FF\<close> lie outside the modelled values and
  are reported as errors.  A repeated key keeps its first position and its last value.
\<close>

datatype token =
    TLBrace | TRBrace | TLBrack | TRBrack | TColon | TComma
  | TStr string | TNum int | TTrue | TFalse | TNull

datatype lexstate =
    LOut
  | LStr string
  | LEsc string
  | LUni string "nat list"
  | LMinus
  | LZero bool
  | LInt bool nat
  | LWord string

definition json_ws :: "char \<Rightarrow> bool" where
  "json_ws c = (of_char c \<in> {32, 9, 10, 13 :: nat})"

definition digit_val :: "char \<Rightarrow> nat option" where
  "digit_val c =
     (let n = (of_char c :: nat) in if 48 \<le> n \<and> n \<le> 57 then Some (n - 48) else None)"

definition hex_val :: "char \<Rightarrow> nat option" where
  "hex_val c =
     (let n = (of_char c :: nat)
      in if 48 \<le> n \<and> n \<le> 57 then Some (n - 48)
         else if 97 \<le> n \<and> n \<le> 102 then Some (n - 87)
         else if 65 \<le> n \<and> n \<le> 70 then Some (n - 55)
         else None)"

definition signed :: "bool \<Rightarrow> nat \<Rightarrow> int" where
  "signed neg n = (if neg then - int n else int n)"

definition out_step :: "char \<Rightarrow> (token list \<times> lexstate) option" where
  "out_step c =
     (if json_ws c then Some ([], LOut)
      else if c = CHR ''{'' then Some ([TLBrace], LOut)
      else if c = CHR ''}'' then Some ([TRBrace], LOut)
      else if c = CHR ''['' then Some ([TLBrack], LOut)
      else if c = CHR '']'' then Some ([TRBrack], LOut)
      else if c = CHR '':'' then Some ([TColon], LOut)
      else if c = CHR '','' then Some ([TComma], LOut)
      else if c = CHR 0x22 then Some ([], LStr [])
      else if c = CHR ''-'' then Some ([], LMinus)
      else if c = CHR ''t'' \<or> c = CHR ''f'' \<or> c = CHR ''n'' then Some ([], LWord [c])
      else (case digit_val c of
              None \<Rightarrow> None
            | Some d \<Rightarrow> Some ([], if d = 0 then LZero False else LInt False d)))"

definition after_number :: "int \<Rightarrow> char \<Rightarrow> (token list \<times> lexstate) option" where
  "after_number k c =
     (case out_step c of None \<Rightarrow> None | Some (ts, st) \<Rightarrow> Some (TNum k # ts, st))"

definition escape_step :: "string \<Rightarrow> char \<Rightarrow> (token list \<times> lexstate) option" where
  "escape_step acc c =
     (if c = CHR 0x22 \<or> c = CHR 0x5C \<or> c = CHR ''/'' then Some ([], LStr (acc @ [c]))
      else if c = CHR ''b'' then Some ([], LStr (acc @ [CHR 0x08]))
      else if c = CHR ''f'' then Some ([], LStr (acc @ [CHR 0x0C]))
      else if c = CHR ''n'' then Some ([], LStr (acc @ [CHR 0x0A]))
      else if c = CHR ''r'' then Some ([], LStr (acc @ [CHR 0x0D]))
      else if c = CHR ''t'' then Some ([], LStr (acc @ [CHR 0x09]))
      else if c = CHR ''u'' then Some ([], LUni acc [])
      else None)"

definition word_step :: "string \<Rightarrow> (token list \<times> lexstate) option" where
  "word_step w =
     (if w = ''true'' then Some ([TTrue], LOut)
      else if w = ''false'' then Some ([TFalse], LOut)
      else if w = ''null'' then Some ([TNull], LOut)
      else if prefix w ''true'' \<or> prefix w ''false'' \<or> prefix w ''null'' then Some ([], LWord w)
      else None)"

fun lex_step :: "lexstate \<Rightarrow> char \<Rightarrow> (token list \<times> lexstate) option" where
  "lex_step LOut c = out_step c"
| "lex_step (LStr acc) c =
     (if c = CHR 0x22 then Some ([TStr acc], LOut)
      else if c = CHR 0x5C then Some ([], LEsc acc)
      else if (of_char c :: nat) < 32 then None
      else Some ([], LStr (acc @ [c])))"
| "lex_step (LEsc acc) c = escape_step acc c"
| "lex_step (LUni acc hs) c =
     (case hex_val c of
        None \<Rightarrow> None
      | Some h \<Rightarrow>
          if length hs < 3 then Some ([], LUni acc (hs @ [h]))
          else (let code = foldl (\<lambda>a d. 16 * a + d) 0 (hs @ [h])
                in if code < 256 then Some ([], LStr (acc @ [char_of code])) else None))"
| "lex_step LMinus c =
     (case digit_val c of
        None \<Rightarrow> None
      | Some d \<Rightarrow> Some ([], if d = 0 then LZero True else LInt True d))"
| "lex_step (LZero neg) c =
     (case digit_val c of Some d \<Rightarrow> None | None \<Rightarrow> after_number 0 c)"
| "lex_step (LInt neg n) c =
     (case digit_val c of
        Some d \<Rightarrow> Some ([], LInt neg (10 * n + d))
      | None \<Rightarrow> after_number (signed neg n) c)"
| "lex_step (LWord w) c = word_step (w @ [c])"

fun lex_end :: "lexstate \<Rightarrow> token list option" where
  "lex_end LOut = Some []"
| "lex_end (LZero neg) = Some [TNum 0]"
| "lex_end (LInt neg n) = Some [TNum (signed neg n)]"
| "lex_end st = None"

fun lex_from :: "lexstate \<Rightarrow> string \<Rightarrow> token list option" where
  "lex_from st [] = lex_end st"
| "lex_from st (c # cs) =
     (case lex_step st c of
        None \<Rightarrow> None
      | Some (ts, st') \<Rightarrow> (case lex_from st' cs of None \<Rightarrow> None | Some r \<Rightarrow> Some (ts @ r)))"

text \<open>Assignment to a property: an existing key keeps its place.\<close>

fun obj_set :: "(string \<times> 'a) list \<Rightarrow> string \<Rightarrow> 'a \<Rightarrow> (string \<times> 'a) list" where
  "obj_set [] k v = [(k, v)]"
| "obj_set (p # ps) k v = (if fst p = k then (k, v) # ps else p # obj_set ps k v)"

datatype frame = FArr "jsval list" | FObj "(string \<times> jsval) list" string

datatype pstate =
    PValue "frame list"
  | PArrStart "frame list"
  | PObjStart "frame list"
  | PKey "(string \<times> jsval) list" "frame list"
  | PColon "(string \<times> jsval) list" string "frame list"
  | PDone jsval "frame list"

fun value_token :: "token \<Rightarrow> frame list \<Rightarrow> pstate option" where
  "value_token (TStr s) stk = Some (PDone (JStr s) stk)"
| "value_token (TNum n) stk = Some (PDone (JNum n) stk)"
| "value_token TTrue stk = Some (PDone (JBool True) stk)"
| "value_token TFalse stk = Some (PDone (JBool False) stk)"
| "value_token TNull stk = Some (PDone JNull stk)"
| "value_token TLBrack stk = Some (PArrStart stk)"
| "value_token TLBrace stk = Some (PObjStart stk)"
| "value_token t stk = None"

fun parse_step :: "pstate \<Rightarrow> token \<Rightarrow> pstate option" where
  "parse_step (PValue stk) t = value_token t stk"
| "parse_step (PArrStart stk) t =
     (if t = TRBrack then Some (PDone (JArr []) stk) else value_token t (FArr [] # stk))"
| "parse_step (PObjStart stk) t =
     (case t of
        TRBrace \<Rightarrow> Some (PDone (JObj []) stk)
      | TStr k \<Rightarrow> Some (PColon [] k stk)
      | _ \<Rightarrow> None)"
| "parse_step (PKey fs stk) t = (case t of TStr k \<Rightarrow> Some (PColon fs k stk) | _ \<Rightarrow> None)"
| "parse_step (PColon fs k stk) t = (if t = TColon then Some (PValue (FObj fs k # stk)) else None)"
| "parse_step (PDone v []) t = None"
| "parse_step (PDone v (FArr items # stk)) t =
     (if t = TComma then Some (PValue (FArr (items @ [v]) # stk))
      else if t = TRBrack then Some (PDone (JArr (items @ [v])) stk)
      else None)"
| "parse_step (PDone v (FObj fs k # stk)) t =
     (if t = TComma then Some (PKey (obj_set fs k v) stk)
      else if t = TRBrace then Some (PDone (JObj (obj_set fs k v)) stk)
      else None)"

fun parse_tokens :: "pstate \<Rightarrow> token list \<Rightarrow> pstate option" where
  "parse_tokens st [] = Some st"
| "parse_tokens st (t # ts) =
     (case parse_step st t of None \<Rightarrow> None | Some st' \<Rightarrow> parse_tokens st' ts)"

definition JSON_parse :: "string \<Rightarrow> jsval option" where
  "JSON_parse s =
     (case lex_from LOut s of
        None \<Rightarrow> None
      | Some ts \<Rightarrow>
          (case parse_tokens (PValue []) ts of
             Some (PDone v []) \<Rightarrow> Some v
           | _ \<Rightarrow> None))"

text \<open>
  The conversions the parsing helpers apply to a parsed value: truthiness and
  \<open>String(value)\<close> (an array joins the strings of its elements with commas, a null
  element giving the empty string).
\<close>

fun truthy :: "jsval \<Rightarrow> bool" where
  "truthy JUndefined = False"
| "truthy JNull = False"
| "truthy (JBool b) = b"
| "truthy (JNum n) = (n \<noteq> 0)"
| "truthy (JStr s) = (s \<noteq> [])"
| "truthy (JArr xs) = True"
| "truthy (JObj fs) = True"

fun to_String :: "jsval \<Rightarrow> string" where
  "to_String JUndefined = ''undefined''"
| "to_String JNull = ''null''"
| "to_String (JBool b) = (if b then ''true'' else ''false'')"
| "to_String (JNum n) = show_int n"
| "to_String (JStr s) = s"
| "to_String (JArr xs) =
     join '','' (map (\<lambda>x. if x = JNull \<or> x = JUndefined then [] else to_String x) xs)"
| "to_String (JObj fs) = ''[object Object]''"

definition String_or_empty :: "jsval \<Rightarrow> string" where
  "String_or_empty v = (if truthy v then to_String v else [])"

section \<open>Capability gate\<close>

datatype CapabilityMode = ModeAllow | ModeDeny

record CapabilityRules =
  mode :: CapabilityMode
  allowTools :: "string list"
  denyTools :: "string list"
  allowActions :: "string list"
  denyActions :: "string list"

record CapabilityDecision =
  allowed :: bool
  reason :: string
  matchedSignals :: "string list"

record CapabilityPolicyEngine =
  defaults :: CapabilityRules
  channels :: "(string \<times> CapabilityRules) list"

definition DEFAULT_RULES :: CapabilityRules where
  "DEFAULT_RULES =
     \<lparr>mode = ModeAllow, allowTools = [], denyTools = [], allowActions = [], denyActions = []\<rparr>"

definition normalizeMode :: "string \<Rightarrow> CapabilityMode" where
  "normalizeMode v = (if toLowerCase (trim v) = ''deny'' then ModeDeny else ModeAllow)"

definition normalizeList :: "string list \<Rightarrow> string list" where
  "normalizeList vs = js_sort (uniq (filter (\<lambda>v. v \<noteq> []) (map (\<lambda>v. toLowerCase (trim v)) vs)))"

text \<open>
  \<open>decisionFromRule\<close>: the deny set first, then a non-empty allow set decides alone,
  then the mode.  The sets are given as the arrays they are built from.
\<close>

definition decisionFromRule ::
  "string \<Rightarrow> CapabilityMode \<Rightarrow> string list \<Rightarrow> string list \<Rightarrow> string \<Rightarrow> CapabilityDecision" where
  "decisionFromRule v m allowSet denySet valueType =
     (if v \<in> set denySet then
        \<lparr>allowed = False,
         reason = valueType @ '' denied by capability policy.'',
         matchedSignals = [valueType @ ''-deny:'' @ v]\<rparr>
      else if allowSet \<noteq> [] then
        (if v \<in> set allowSet then
           \<lparr>allowed = True,
            reason = valueType @ '' allowed by capability allowlist.'',
            matchedSignals = [valueType @ ''-allow:'' @ v]\<rparr>
         else
           \<lparr>allowed = False,
            reason = valueType @ '' not present in capability allowlist.'',
            matchedSignals = [valueType @ ''-allow-miss:'' @ v]\<rparr>)
      else if m = ModeDeny then
        \<lparr>allowed = False,
         reason = valueType @ '' denied by default-deny capability mode.'',
         matchedSignals = [valueType @ ''-default-deny:'' @ v]\<rparr>
      else
        \<lparr>allowed = True,
         reason = valueType @ '' allowed by default capability mode.'',
         matchedSignals = [valueType @ ''-default-allow:'' @ v]\<rparr>)"

definition resolveRules :: "CapabilityPolicyEngine \<Rightarrow> string \<Rightarrow> CapabilityRules" where
  "resolveRules eng channel =
     (let normalizedChannel = toLowerCase (trim channel)
      in if normalizedChannel = [] then defaults eng
         else (case map_of (channels eng) normalizedChannel of
                 Some r \<Rightarrow> r
               | None \<Rightarrow> defaults eng))"

text \<open>The loop over the requested tools: the first denial is returned.\<close>

fun firstDenied :: "CapabilityRules \<Rightarrow> string list \<Rightarrow> CapabilityDecision option" where
  "firstDenied rules [] = None"
| "firstDenied rules (tool # tools) =
     (let decision = decisionFromRule tool (mode rules) (allowTools rules) (denyTools rules) ''tool''
      in if \<not> allowed decision then Some decision else firstDenied rules tools)"

definition evaluateToolExecution ::
  "CapabilityPolicyEngine \<Rightarrow> string list \<Rightarrow> string \<Rightarrow> CapabilityDecision" where
  "evaluateToolExecution eng toolNames channelHint =
     (let normalizedTools = normalizeList toolNames
      in if normalizedTools = [] then
           \<lparr>allowed = True, reason = ''No tool execution requested.'', matchedSignals = []\<rparr>
         else
           (let rules = resolveRules eng channelHint;
                actionDecision =
                  decisionFromRule ''tool.execute'' (mode rules) (allowActions rules)
                    (denyActions rules) ''action''
            in if \<not> allowed actionDecision then actionDecision
               else (case firstDenied rules normalizedTools of
                       Some decision \<Rightarrow> decision
                     | None \<Rightarrow>
                         \<lparr>allowed = True,
                          reason = ''Tool execution allowed by capability policy.'',
                          matchedSignals = map (\<lambda>tool. ''tool-allowed:'' @ tool) normalizedTools\<rparr>)))"

section \<open>Budget controller\<close>

text \<open>
  \<open>BudgetController\<close> of \<open>channel-destination-policy.ts\<close>, over its two tables.  An
  amount in USD is a rational number, so that sums and comparisons are exact.  A
  timestamp is the text the table stores, and the queries compare texts.  The readings
  of the clock (the start of the rolling hour, the start of the UTC day, and the two
  timestamps a suspension writes) are arguments, and so are the two private members of
  the controller: its policy and its database handle, which is \<open>None\<close> before
  \<open>init\<close>.  A method returns the tables as it leaves them.
\<close>

datatype BudgetDecision = Allow | Suspend

record BudgetPolicy =
  hourlyUsdCap :: rat
  dailyUsdCap :: rat

record CostEstimate =
  model :: string
  inputTokens :: int
  outputTokens :: int
  estimatedUsd :: rat

record CostRecord = CostEstimate +
  requestPath :: string
  timestamp :: "string option"

text \<open>A row of \<open>cost_events\<close> and the single row of \<open>budget_state\<close>.\<close>

record CostEvent =
  timestamp :: string
  model :: string
  input_tokens :: int
  output_tokens :: int
  usd_cost :: rat
  request_path :: string

record BudgetState =
  suspended :: int
  reason :: "string option"
  triggered_at :: "string option"
  resumed_at :: "string option"
  resumed_by :: "string option"
  updated_at :: string

record BudgetDb =
  cost_events :: "CostEvent list"
  budget_state :: BudgetState

record BudgetUsage =
  hourlyUsd :: rat
  dailyUsd :: rat

record BudgetResult =
  decision :: BudgetDecision
  reason :: "string option"

datatype BudgetError = NotInitialized

text \<open>
  \<open>Number.prototype.toFixed\<close> for a magnitude below \<open>10^21\<close> (above it the built-in
  switches to exponent notation): the nearest multiple of \<open>10^-f\<close>, the larger one of
  two, printed with \<open>f\<close> digits after the point.
\<close>

definition toFixed :: "nat \<Rightarrow> rat \<Rightarrow> string" where
  "toFixed f x =
     (let s = (if x < 0 then ''-'' else []);
          n = nat \<lfloor>\<bar>x\<bar> * 10 ^ f + 1 / 2\<rfloor>;
          m = show_nat n
      in if f = 0 then s @ m
         else (let padded = replicate (f + 1 - length m) CHR ''0'' @ m;
                   k = length padded
               in s @ take (k - f) padded @ ''.'' @ drop (k - f) padded))"

definition readUsage :: "string \<Rightarrow> string \<Rightarrow> BudgetDb \<Rightarrow> BudgetUsage" where
  "readUsage hourStart dayStart d =
     \<lparr>hourlyUsd = sum_list (map usd_cost
          (filter (\<lambda>e. hourStart \<le> CostEvent.timestamp e) (cost_events d))),
      dailyUsd = sum_list (map usd_cost
          (filter (\<lambda>e. dayStart \<le> CostEvent.timestamp e) (cost_events d)))\<rparr>"

definition suspend :: "string \<Rightarrow> string \<Rightarrow> string \<Rightarrow> BudgetDb \<Rightarrow> BudgetDb" where
  "suspend triggeredAt updatedAt why d =
     d\<lparr>budget_state := (budget_state d)
          \<lparr>suspended := 1, BudgetState.reason := Some why,
           triggered_at := Some triggeredAt, updated_at := updatedAt\<rparr>\<rparr>"

definition evaluateProjected ::
  "string \<Rightarrow> string \<Rightarrow> string \<Rightarrow> string \<Rightarrow> BudgetPolicy \<Rightarrow> BudgetDb option \<Rightarrow>
   CostEstimate \<Rightarrow> BudgetError + (BudgetDb \<times> BudgetResult)" where
  "evaluateProjected hourStart dayStart triggeredAt updatedAt policy handle estimate =
     (case handle of
        None \<Rightarrow> Inl NotInitialized
      | Some d \<Rightarrow>
          if suspended (budget_state d) = 1
          then Inr (d, \<lparr>decision = Suspend,
                 reason = Some (case BudgetState.reason (budget_state d) of
                                  None \<Rightarrow> ''Budget controller is currently suspended.''
                                | Some r \<Rightarrow> if r = [] then ''Budget controller is currently suspended.''
                                            else r)\<rparr>)
          else
            (let usage = readUsage hourStart dayStart d;
                 projectedHourly = hourlyUsd usage + estimatedUsd estimate;
                 projectedDaily = dailyUsd usage + estimatedUsd estimate
             in if projectedHourly > hourlyUsdCap policy
                then (let why = ''Hourly compute budget exceeded ('' @ toFixed 4 projectedHourly
                          @ '' > '' @ toFixed 4 (hourlyUsdCap policy) @ '' USD).''
                      in Inr (suspend triggeredAt updatedAt why d,
                              \<lparr>decision = Suspend, reason = Some why\<rparr>))
                else if projectedDaily > dailyUsdCap policy
                then (let why = ''Daily compute budget exceeded ('' @ toFixed 4 projectedDaily
                          @ '' > '' @ toFixed 4 (dailyUsdCap policy) @ '' USD).''
                      in Inr (suspend triggeredAt updatedAt why d,
                              \<lparr>decision = Suspend, reason = Some why\<rparr>))
                else Inr (d, \<lparr>decision = Allow, reason = None\<rparr>)))"

text \<open>\<open>recordActual\<close>: the event is stored with its own timestamp or the present one,
  then the usage is read again and a cap that is passed suspends the controller.\<close>

definition recordActual ::
  "string \<Rightarrow> string \<Rightarrow> string \<Rightarrow> string \<Rightarrow> string \<Rightarrow> BudgetPolicy \<Rightarrow> BudgetDb option \<Rightarrow>
   CostRecord \<Rightarrow> BudgetError + BudgetDb" where
  "recordActual nowIso hourStart dayStart triggeredAt updatedAt policy handle cost =
     (case handle of
        None \<Rightarrow> Inl NotInitialized
      | Some d0 \<Rightarrow>
          (let stamp = (case CostRecord.timestamp cost of
                          None \<Rightarrow> nowIso
                        | Some t \<Rightarrow> if t = [] then nowIso else t);
               d = d0\<lparr>cost_events := cost_events d0 @
                      [\<lparr>timestamp = stamp, model = CostEstimate.model cost,
                        input_tokens = inputTokens cost, output_tokens = outputTokens cost,
                        usd_cost = estimatedUsd cost, request_path = requestPath cost\<rparr>]\<rparr>;
               usage = readUsage hourStart dayStart d
           in if hourlyUsd usage > hourlyUsdCap policy
              then Inr (suspend triggeredAt updatedAt
                     (''Hourly compute budget exceeded after actual accounting (''
                        @ toFixed 4 (hourlyUsd usage) @ '' > ''
                        @ toFixed 4 (hourlyUsdCap policy) @ '' USD).'') d)
              else if dailyUsd usage > dailyUsdCap policy
              then Inr (suspend triggeredAt updatedAt
                     (''Daily compute budget exceeded after actual accounting (''
                        @ toFixed 4 (dailyUsd usage) @ '' > ''
                        @ toFixed 4 (dailyUsdCap policy) @ '' USD).'') d)
              else Inr d))"

section \<open>Policy engine\<close>

datatype PolicyDecisionType = Allow | RequireApproval | Block

datatype RiskClass = Low | Medium | High | Critical

datatype ModelModality = Text | Vision | Audio | Safety | Embedding

record ToolIntent =
  hasToolIntent :: bool
  toolNames :: "string list"

record PolicyInput =
  path :: string
  http_method :: string
  body :: jsval
  model :: string
  modality :: ModelModality
  intent :: ToolIntent

record PolicyDecision =
  decision :: PolicyDecisionType
  reason :: string
  riskClass :: RiskClass
  matchedSignals :: "string list"

record PolicyEngineOptions =
  opt_highRiskTools :: "string list option"
  opt_criticalPatterns :: "string list option"
  opt_highRiskPatterns :: "string list option"

record PolicyEngine =
  highRiskTools :: "string list"
  criticalPatterns :: "string list"
  highRiskPatterns :: "string list"

definition DEFAULT_HIGH_RISK_TOOLS :: "string list" where
  "DEFAULT_HIGH_RISK_TOOLS =
     [''execute_bash'', ''shell'', ''terminal'', ''write_file'', ''delete_file'',
      ''execute_sql'', ''run_sql'', ''database_query'', ''browser_control'']"

definition DEFAULT_CRITICAL_PATTERNS :: "string list" where
  "DEFAULT_CRITICAL_PATTERNS =
     [''drop table'', ''truncate table'', ''rm -rf'', ''delete from'', ''format c:'',
      ''powershell -encodedcommand'']"

definition DEFAULT_HIGH_RISK_PATTERNS :: "string list" where
  "DEFAULT_HIGH_RISK_PATTERNS =
     [''prod'', ''production'', ''secret'', ''token'', ''password'', ''api key'',
      ''exfiltrate'', ''export data'']"

definition normalize_values :: "string list \<Rightarrow> string list" where
  "normalize_values vs = uniq (filter (\<lambda>v. v \<noteq> []) (map (\<lambda>v. toLowerCase (trim v)) vs))"

text \<open>\<open>toText\<close>: a body that does not serialize (the result \<open>undefined\<close> has no
  \<open>toLowerCase\<close>) gives the empty text.\<close>

definition toText :: "jsval \<Rightarrow> string" where
  "toText payload = (case JSON_stringify payload of None \<Rightarrow> [] | Some t \<Rightarrow> toLowerCase t)"

definition updateRules :: "PolicyEngineOptions \<Rightarrow> PolicyEngine" where
  "updateRules options =
     \<lparr>highRiskTools =
        normalize_values (case opt_highRiskTools options of Some v \<Rightarrow> v | None \<Rightarrow> DEFAULT_HIGH_RISK_TOOLS),
      criticalPatterns =
        normalize_values (case opt_criticalPatterns options of Some v \<Rightarrow> v | None \<Rightarrow> DEFAULT_CRITICAL_PATTERNS),
      highRiskPatterns =
        normalize_values (case opt_highRiskPatterns options of Some v \<Rightarrow> v | None \<Rightarrow> DEFAULT_HIGH_RISK_PATTERNS)\<rparr>"

definition toolSignals :: "PolicyEngine \<Rightarrow> string list \<Rightarrow> string list" where
  "toolSignals eng names =
     map (\<lambda>n. ''high-risk-tool:'' @ n)
       (filter (\<lambda>n. n \<in> set (highRiskTools eng)) (map toLowerCase names))"

definition patternSignals :: "string \<Rightarrow> string list \<Rightarrow> string \<Rightarrow> string list" where
  "patternSignals label patterns bodyText =
     map (\<lambda>p. label @ p) (filter (\<lambda>p. includes_str bodyText p) patterns)"

definition pathSignals :: "string \<Rightarrow> string \<Rightarrow> string list" where
  "pathSignals lowerPath lowerMethod =
     (if (includes_str lowerPath ''admin'' \<or> includes_str lowerPath ''system'') \<and> lowerMethod \<noteq> ''get''
      then [''high-risk-path:admin-system''] else [])"

definition modalitySignals :: "ModelModality \<Rightarrow> string list" where
  "modalitySignals m =
     (if m = Audio then [''modality:audio'']
      else if m = Vision then [''modality:vision'']
      else [])"

definition evaluate :: "PolicyEngine \<Rightarrow> PolicyInput \<Rightarrow> PolicyDecision" where
  "evaluate eng input =
     (let bodyText = toText (body input);
          lowerPath = toLowerCase (path input);
          lowerMethod = toLowerCase (http_method input);
          signals =
            toolSignals eng (toolNames (intent input))
            @ patternSignals ''critical-pattern:'' (criticalPatterns eng) bodyText
            @ patternSignals ''high-risk-pattern:'' (highRiskPatterns eng) bodyText
            @ pathSignals lowerPath lowerMethod
            @ modalitySignals (modality input);
          hasCritical = (\<exists>signal \<in> set signals. startsWith signal ''critical-pattern'');
          hasHighRisk = (\<exists>signal \<in> set signals. startsWith signal ''high-risk'')
      in if hasCritical then
           \<lparr>decision = Block,
            reason = ''Critical destructive pattern detected.'',
            riskClass = Critical,
            matchedSignals = signals\<rparr>
         else if hasHighRisk then
           \<lparr>decision = RequireApproval,
            reason = ''High-risk action requires approval.'',
            riskClass = High,
            matchedSignals = signals\<rparr>
         else
           \<lparr>decision = Allow,
            reason = ''No high-risk policy signals detected.'',
            riskClass = Low,
            matchedSignals = signals\<rparr>)"

section \<open>Numbers and times of the host language\<close>

text \<open>
  A number a caller passes: a finite number with its exact value, or one of the three
  non-finite ones.  \<open>Math.floor\<close>, \<open>Math.min\<close>, \<open>Math.max\<close> and the comparisons are
  exact on numbers; for the product and the sum below the rounding to the nearest
  representable number is not modelled (both are exact for whole seconds and
  milliseconds).  A point in time is its number of milliseconds since the epoch, which a
  timestamp string written by \<open>toISOString\<close> stands for; the comparison of two such
  strings in the store is the comparison of these numbers.
\<close>

datatype jsnum = Fin rat | NaN | PosInf | NegInf

fun isFinite :: "jsnum \<Rightarrow> bool" where
  "isFinite (Fin q) = True"
| "isFinite n = False"

fun js_max :: "jsnum \<Rightarrow> jsnum \<Rightarrow> jsnum" where
  "js_max NaN y = NaN"
| "js_max x NaN = NaN"
| "js_max PosInf y = PosInf"
| "js_max x PosInf = PosInf"
| "js_max NegInf y = y"
| "js_max x NegInf = x"
| "js_max (Fin a) (Fin b) = Fin (max a b)"

fun js_times :: "jsnum \<Rightarrow> rat \<Rightarrow> jsnum" where
  "js_times (Fin a) k = Fin (a * k)"
| "js_times n k = n"

fun js_plus :: "int \<Rightarrow> jsnum \<Rightarrow> jsnum" where
  "js_plus t (Fin a) = Fin (of_int t + a)"
| "js_plus t n = n"

text \<open>\<open>new Date(value)\<close>: the time value is clipped; \<open>None\<close> is the invalid date, on
  which \<open>toISOString\<close> throws.\<close>

fun new_Date :: "jsnum \<Rightarrow> int option" where
  "new_Date (Fin q) =
     (if \<bar>q\<bar> \<le> 8640000000000000 then Some (if 0 \<le> q then \<lfloor>q\<rfloor> else \<lceil>q\<rceil>) else None)"
| "new_Date n = None"

section \<open>Lists and maps kept as JSON text\<close>

text \<open>
  The helpers of the approval service that write and read the text columns holding JSON,
  and its two clamps.  The attestation module has functions of its own with the bodies
  of \<open>parseApprovalActors\<close>, \<open>parseRoleArray\<close> (there \<open>parseRequiredRoles\<close>),
  \<open>parseApprovalActorRoles\<close>, \<open>normalizeRequiredApprovals\<close> and
  \<open>normalizeMaxUses\<close> (there without the default for a missing argument); the
  definitions below stand for both.
\<close>

definition stringify_text :: "jsval \<Rightarrow> string" where
  "stringify_text v = (case JSON_stringify v of Some t \<Rightarrow> t | None \<Rightarrow> [])"

definition stringify_strings :: "string list \<Rightarrow> string" where
  "stringify_strings xs = stringify_text (JArr (map JStr xs))"


fun js_floor :: "jsnum \<Rightarrow> int" where
  "js_floor (Fin q) = \<lfloor>q\<rfloor>"
| "js_floor n = 0"

definition normalizeRequiredApprovals :: "jsnum option \<Rightarrow> int" where
  "normalizeRequiredApprovals v =
     (let fallback = 1;
          numeric = (case v of None \<Rightarrow> Fin 1 | Some n \<Rightarrow> n)
      in if \<not> isFinite numeric then fallback else min 5 (max 1 (js_floor numeric)))"

definition normalizeMaxUses :: "jsnum option \<Rightarrow> int" where
  "normalizeMaxUses v =
     (let fallback = 1;
          numeric = (case v of None \<Rightarrow> Fin 1 | Some n \<Rightarrow> n)
      in if \<not> isFinite numeric then fallback else min 100 (max 1 (js_floor numeric)))"


definition parseRoleArray :: "string \<Rightarrow> string list" where
  "parseRoleArray raw =
     (case JSON_parse raw of
        Some (JArr xs) \<Rightarrow>
          js_sort (filter (\<lambda>s. s \<noteq> []) (map (\<lambda>v. toLowerCase (trim (String_or_empty v))) xs))
      | _ \<Rightarrow> [])"



definition normalizeRoles :: "string list option \<Rightarrow> string list" where
  "normalizeRoles vs =
     js_sort (uniq (filter (\<lambda>s. s \<noteq> [])
       (map (\<lambda>v. toLowerCase (trim v)) (case vs of None \<Rightarrow> [] | Some xs \<Rightarrow> xs))))"

definition mergeRoles :: "string list \<Rightarrow> string list \<Rightarrow> string list" where
  "mergeRoles a b = js_sort (uniq (a @ b))"

section \<open>Approval service\<close>

datatype ApprovalStatus = Pending | Approved | Denied | Expired

record ApprovalCreateInput =
  requestFingerprint :: string
  reason :: string
  metadata :: jsval
  ttlSeconds :: jsnum
  requiredApprovals :: "jsnum option"
  requiredRoles :: "string list option"
  maxUses :: "jsnum option"

text \<open>A row of the table \<open>approvals\<close>.  The four text columns that hold JSON keep their
  text.  The type of the timestamps is a parameter: the service computes with points in
  time, the attestation only copies the strings.\<close>

record 't ApprovalRecord =
  row_id :: string
  created_at :: 't
  expires_at :: 't
  status :: ApprovalStatus
  required_approvals :: int
  required_roles :: string
  max_uses :: int
  use_count :: int
  last_used_at :: "'t option"
  approval_actors :: string
  approval_actor_roles :: string
  request_fingerprint :: string
  reason :: string
  metadata :: string
  resolved_by :: "string option"
  resolved_at :: "'t option"

type_synonym approvals = "int ApprovalRecord list"

datatype ApprovalError =
    ActorRequired
  | ApprovalNotFound string
  | InvalidTimeValue
  | IdNotUnique

text \<open>The statements on the table: an \<open>UPDATE ... WHERE\<close> rewrites the rows that
  satisfy the condition, a \<open>SELECT ... WHERE id = ?\<close> finds the row of that key.\<close>

definition update_where ::
  "('t ApprovalRecord \<Rightarrow> bool) \<Rightarrow> ('t ApprovalRecord \<Rightarrow> 't ApprovalRecord) \<Rightarrow>
   't ApprovalRecord list \<Rightarrow> 't ApprovalRecord list" where
  "update_where cond change db = map (\<lambda>r. if cond r then change r else r) db"

definition getById :: "'t ApprovalRecord list \<Rightarrow> string \<Rightarrow> 't ApprovalRecord option" where
  "getById db i = find (\<lambda>r. row_id r = i) db"

definition cleanupExpired :: "int \<Rightarrow> approvals \<Rightarrow> approvals" where
  "cleanupExpired nowIso db =
     update_where (\<lambda>r. status r = Pending \<and> expires_at r < nowIso) (\<lambda>r. r\<lparr>status := Expired\<rparr>) db"

text \<open>\<open>ORDER BY created_at DESC LIMIT 1\<close> over the pending rows of a fingerprint; among
  rows of the same \<open>created_at\<close> the first of the table is taken.\<close>

fun latest :: "int ApprovalRecord list \<Rightarrow> int ApprovalRecord option" where
  "latest [] = None"
| "latest (r # rs) =
     (case latest rs of
        None \<Rightarrow> Some r
      | Some r' \<Rightarrow> if created_at r < created_at r' then Some r' else Some r)"

definition findPending :: "approvals \<Rightarrow> string \<Rightarrow> int ApprovalRecord option" where
  "findPending db fp = latest (filter (\<lambda>r. request_fingerprint r = fp \<and> status r = Pending) db)"

text \<open>
  \<open>getOrCreatePending\<close>.  The clock is read twice (for the cleanup and for
  \<open>created_at\<close>) and the new key comes from \<open>randomUUID\<close>; the three are arguments.
  The result is the table after the call and either the error thrown or the record
  returned with the flag \<open>created\<close>.  The three parts of its body are named: the
  raise of \<open>max_uses\<close> of an existing pending row, the upgrade of its quorum and roles,
  and the insertion of a new row.
\<close>

definition raiseMaxUses :: "approvals \<Rightarrow> int ApprovalRecord \<Rightarrow> int \<Rightarrow> approvals" where
  "raiseMaxUses db existing maxUsesN =
     (if max_uses existing < maxUsesN
      then update_where (\<lambda>r. row_id r = row_id existing) (\<lambda>r. r\<lparr>max_uses := maxUsesN\<rparr>) db
      else db)"

definition upgradeQuorum ::
  "approvals \<Rightarrow> int ApprovalRecord \<Rightarrow> int \<Rightarrow> string list \<Rightarrow>
   approvals \<times> (ApprovalError + int ApprovalRecord \<times> bool)" where
  "upgradeQuorum db existing requiredApprovalsN requiredRolesN =
     (let existingRequiredRoles = parseRoleArray (required_roles existing);
          mergedRoles = mergeRoles existingRequiredRoles requiredRolesN
      in if required_approvals existing < requiredApprovalsN then
           (let db2 = update_where (\<lambda>r. row_id r = row_id existing)
                        (\<lambda>r. r\<lparr>required_approvals := requiredApprovalsN,
                               required_roles := stringify_strings mergedRoles\<rparr>) db
            in case getById db2 (row_id existing) of
                 None \<Rightarrow> (db2, Inl (ApprovalNotFound (row_id existing)))
               | Some upgraded \<Rightarrow> (db2, Inr (upgraded, False)))
         else if stringify_strings existingRequiredRoles \<noteq> stringify_strings mergedRoles then
           (let db2 = update_where (\<lambda>r. row_id r = row_id existing)
                        (\<lambda>r. r\<lparr>required_roles := stringify_strings mergedRoles\<rparr>) db
            in case getById db2 (row_id existing) of
                 None \<Rightarrow> (db2, Inl (ApprovalNotFound (row_id existing)))
               | Some upgraded \<Rightarrow> (db2, Inr (upgraded, False)))
         else (db, Inr (existing, False)))"

definition insertPending ::
  "approvals \<Rightarrow> int \<Rightarrow> string \<Rightarrow> ApprovalCreateInput \<Rightarrow> int \<Rightarrow> string list \<Rightarrow> int \<Rightarrow>
   approvals \<times> (ApprovalError + int ApprovalRecord \<times> bool)" where
  "insertPending db createdAt uuid input requiredApprovalsN requiredRolesN maxUsesN =
     (case new_Date (js_plus createdAt (js_times (js_max (Fin 60) (ttlSeconds input)) 1000)) of
        None \<Rightarrow> (db, Inl InvalidTimeValue)
      | Some expiresAt \<Rightarrow>
          if uuid \<in> set (map row_id db) then (db, Inl IdNotUnique)
          else
            (let createdRecord =
                   \<lparr>row_id = uuid,
                    created_at = createdAt,
                    expires_at = expiresAt,
                    status = Pending,
                    required_approvals = requiredApprovalsN,
                    required_roles = stringify_strings requiredRolesN,
                    max_uses = maxUsesN,
                    use_count = 0,
                    last_used_at = None,
                    approval_actors = ''[]'',
                    approval_actor_roles = ''{}'',
                    request_fingerprint = requestFingerprint input,
                    reason = ApprovalCreateInput.reason input,
                    metadata =
                      stringify_text
                        (if truthy (ApprovalCreateInput.metadata input)
                         then ApprovalCreateInput.metadata input else JObj []),
                    resolved_by = None,
                    resolved_at = None\<rparr>
             in (db @ [createdRecord], Inr (createdRecord, True))))"

definition getOrCreatePending ::
  "int \<Rightarrow> int \<Rightarrow> string \<Rightarrow> approvals \<Rightarrow> ApprovalCreateInput \<Rightarrow>
   approvals \<times> (ApprovalError + int ApprovalRecord \<times> bool)" where
  "getOrCreatePending cleanupNow createdAt uuid db0 input =
     (let db = cleanupExpired cleanupNow db0;
          requiredApprovalsN = normalizeRequiredApprovals (requiredApprovals input);
          requiredRolesN = normalizeRoles (requiredRoles input);
          maxUsesN = normalizeMaxUses (maxUses input)
      in case findPending db (requestFingerprint input) of
           Some existing \<Rightarrow>
             upgradeQuorum (raiseMaxUses db existing maxUsesN) existing requiredApprovalsN requiredRolesN
         | None \<Rightarrow> insertPending db createdAt uuid input requiredApprovalsN requiredRolesN maxUsesN)"



text \<open>\<open>consumeApproved\<close>: one conditional update; the result tells whether a row
  changed.\<close>

definition consumeApproved ::
  "int \<Rightarrow> int \<Rightarrow> approvals \<Rightarrow> string \<Rightarrow> string \<Rightarrow> approvals \<times> bool" where
  "consumeApproved cleanupNow nowIso db0 i fp =
     (let db = cleanupExpired cleanupNow db0;
          hit = (\<lambda>r. row_id r = i \<and> status r = Approved \<and> request_fingerprint r = fp
                      \<and> expires_at r \<ge> nowIso \<and> use_count r < max_uses r)
      in (update_where hit (\<lambda>r. r\<lparr>use_count := use_count r + 1, last_used_at := Some nowIso\<rparr>) db,
          length (filter hit db) > 0))"

section \<open>Evaluation of the string helpers\<close>

lemma char_of_eval:
  "char_of (n :: nat) =
     Char (odd n) (odd (n div 2)) (odd (n div 4)) (odd (n div 8))
          (odd (n div 16)) (odd (n div 32)) (odd (n div 64)) (odd (n div 128))"
  by (simp add: char_of_def bit_iff_odd)

lemmas js_string_defs =
  trim_def toLowerCase_def lower_char_def is_upper_def is_ws_def startsWith_def
  json_quote_def quote_char_def char_of_eval


section \<open>Strings: trimming and lower case\<close>

lemma of_char_lower_char:
  "(of_char (lower_char c) :: nat) = (if is_upper c then of_char c + 32 else of_char c)"
  by (auto simp: lower_char_def is_upper_def Let_def)

lemma is_ws_lower_char [simp]: "is_ws (lower_char c) = is_ws c"
  unfolding is_ws_def of_char_lower_char by (auto simp: is_upper_def Let_def)

lemma is_upper_lower_char [simp]: "\<not> is_upper (lower_char c)"
  unfolding is_upper_def [of "lower_char c"] of_char_lower_char Let_def
  by (auto simp: is_upper_def Let_def)

lemma lower_char_idem [simp]: "lower_char (lower_char c) = lower_char c"
  unfolding lower_char_def [of "lower_char c"] by simp

lemma toLowerCase_idem [simp]: "toLowerCase (toLowerCase s) = toLowerCase s"
  by (simp add: toLowerCase_def)

lemma dropWhile_ws_lower: "dropWhile is_ws (map lower_char s) = map lower_char (dropWhile is_ws s)"
  by (induction s) auto

lemma trim_toLowerCase: "trim (toLowerCase s) = toLowerCase (trim s)"
  by (simp add: trim_def toLowerCase_def dropWhile_ws_lower rev_map)

lemma dropWhile_idem: "dropWhile P (dropWhile P xs) = dropWhile P xs"
  by (induction xs) auto

lemma trim_shape:
  "trim s = [] \<or> (\<not> is_ws (hd (trim s)) \<and> \<not> is_ws (last (trim s)))"
proof -
  let ?a = "dropWhile is_ws s"
  let ?b = "dropWhile is_ws (rev ?a)"
  show ?thesis
  proof (cases "?b = []")
    case True
    then show ?thesis by (simp add: trim_def)
  next
    case False
    then have h: "\<not> is_ws (hd ?b)" by (rule hd_dropWhile)
    have ne: "?a \<noteq> []"
    proof
      assume "?a = []"
      then have "?b = []" by (simp only: rev.simps dropWhile.simps)
      with False show False ..
    qed
    then have la: "\<not> is_ws (hd ?a)" by (rule hd_dropWhile)
    have "last (rev ?b) = hd ?b" using False by (simp add: last_rev)
    moreover have "hd (rev ?b) = last ?b" using False by (simp add: hd_rev)
    moreover have "last ?b = last (rev ?a)"
    proof -
      have "rev ?a = takeWhile is_ws (rev ?a) @ ?b" by simp
      then have "last (rev ?a) = last (takeWhile is_ws (rev ?a) @ ?b)" by simp
      also have "\<dots> = last ?b" using False by (rule last_appendR)
      finally show ?thesis by simp
    qed
    moreover have "last (rev ?a) = hd ?a" using ne by (simp add: last_rev)
    ultimately show ?thesis using h la by (simp add: trim_def)
  qed
qed

lemma trim_fixed:
  "s = [] \<or> (\<not> is_ws (hd s) \<and> \<not> is_ws (last s)) \<Longrightarrow> trim s = s"
proof (cases s)
  case Nil
  then show ?thesis by (simp add: trim_def)
next
  case (Cons a list)
  assume "s = [] \<or> (\<not> is_ws (hd s) \<and> \<not> is_ws (last s))"
  with Cons have a: "\<not> is_ws a" and l: "\<not> is_ws (last s)" by auto
  have 1: "dropWhile is_ws s = s" using a Cons by simp
  have "rev s \<noteq> []" using Cons by simp
  moreover have "hd (rev s) = last s" using Cons by (simp add: hd_rev)
  ultimately have 2: "dropWhile is_ws (rev s) = rev s" using l
    by (cases "rev s") (simp_all only: list.sel dropWhile.simps if_False)
  show ?thesis by (simp add: trim_def 1 2)
qed

lemma trim_idem [simp]: "trim (trim s) = trim s"
  using trim_shape [of s] trim_fixed [of "trim s"] by blast

lemma lower_trim_idem [simp]: "toLowerCase (trim (toLowerCase (trim s))) = toLowerCase (trim s)"
  by (simp add: trim_toLowerCase)

lemma toLowerCase_Nil_iff [simp]: "(toLowerCase s = []) = (s = [])"
  by (simp add: toLowerCase_def)


section \<open>Reading back what \<open>JSON.stringify\<close> wrote\<close>

lemma char_is: "(c = d) = ((of_char c :: nat) = of_char d)"
  by simp

lemma of_char_eqD: "of_char c = (n :: nat) \<Longrightarrow> c = char_of n"
  by (metis char_of_char)

lemma hex_val_hex_char: "d < 16 \<Longrightarrow> hex_val (hex_char d) = Some d"
  by (auto simp: hex_val_def hex_char_def Let_def)

lemma lex_from_Cons:
  "lex_from st (c # cs) =
     (case lex_step st c of
        None \<Rightarrow> None
      | Some (ts, st') \<Rightarrow> (case lex_from st' cs of None \<Rightarrow> None | Some r \<Rightarrow> Some (ts @ r)))"
  by simp

lemma lex_unicode_escape:
  assumes "n < 32" "of_char c = n"
  shows "lex_from (LStr acc)
      (CHR 0x5C # CHR ''u'' # CHR ''0'' # CHR ''0'' # hex_char (n div 16) # hex_char (n mod 16) # rest)
    = lex_from (LStr (acc @ [c])) rest"
proof -
  have h1: "hex_val (hex_char (n div 16)) = Some (n div 16)"
    using assms by (intro hex_val_hex_char) simp
  have h2: "hex_val (hex_char (n mod 16)) = Some (n mod 16)"
    by (intro hex_val_hex_char) simp
  have h0: "hex_val CHR ''0'' = Some 0" by (simp add: hex_val_def)
  have c: "char_of n = c" using assms(2) by (metis char_of_char)
  have ne: "hex_char (n div 16) \<noteq> CHR 0x22 \<and> hex_char (n div 16) \<noteq> CHR 0x5C"
    using assms by (auto simp: hex_char_def char_is)
  show ?thesis
    using assms(1)
    by (simp add: escape_step_def h0 h1 h2 c Let_def split: option.splits)
qed

lemma lex_quote_char:
  "lex_from (LStr acc) (quote_char c @ rest) = lex_from (LStr (acc @ [c])) rest"
proof -
  let ?n = "of_char c :: nat"
  consider "?n = 34" | "?n = 92" | "?n = 8" | "?n = 12" | "?n = 10" | "?n = 13" | "?n = 9"
    | "?n < 32" "?n \<notin> {8, 12, 10, 13, 9}" | "32 \<le> ?n" "?n \<noteq> 34" "?n \<noteq> 92"
    by fastforce
  then show ?thesis
  proof cases
    case 8
    then have q: "quote_char c =
        [CHR 0x5C, CHR ''u'', CHR ''0'', CHR ''0'', hex_char (?n div 16), hex_char (?n mod 16)]"
      by (auto simp: quote_char_def Let_def)
    show ?thesis unfolding q using lex_unicode_escape [OF 8(1) refl] by simp
  next
    case 9
    then have q: "quote_char c = [c]" by (auto simp: quote_char_def Let_def)
    from 9 have "c \<noteq> CHR 0x22" "c \<noteq> CHR 0x5C" by (auto simp: char_is)
    with 9 show ?thesis unfolding q by (simp split: option.splits)
  qed (auto dest!: of_char_eqD simp: char_of_eval quote_char_def Let_def escape_step_def
        split: option.splits)
qed

lemma lex_quoted_body:
  "lex_from (LStr acc) (concat (map quote_char s) @ CHR 0x22 # rest) =
     map_option ((#) (TStr (acc @ s))) (lex_from LOut rest)"
proof (induction s arbitrary: acc)
  case Nil
  show ?case by (simp split: option.splits)
next
  case (Cons c s)
  have "lex_from (LStr acc) (concat (map quote_char (c # s)) @ CHR 0x22 # rest)
      = lex_from (LStr acc) (quote_char c @ (concat (map quote_char s) @ CHR 0x22 # rest))"
    by simp
  also have "\<dots> = lex_from (LStr (acc @ [c])) (concat (map quote_char s) @ CHR 0x22 # rest)"
    by (rule lex_quote_char)
  finally show ?case using Cons.IH [of "acc @ [c]"] by simp
qed

lemma lex_json_quote:
  "lex_from LOut (json_quote s @ rest) =
     map_option ((#) (TStr s)) (lex_from LOut rest)"
proof -
  have "lex_from LOut (json_quote s @ rest)
      = lex_from (LStr []) (concat (map quote_char s) @ CHR 0x22 # rest)"
    by (simp add: json_quote_def out_step_def json_ws_def split: option.splits)
  then show ?thesis using lex_quoted_body [of "[]" s rest] by simp
qed

lemma lex_punct:
  "lex_from LOut (CHR ''['' # rest) = map_option ((#) TLBrack) (lex_from LOut rest)"
  "lex_from LOut (CHR '']'' # rest) = map_option ((#) TRBrack) (lex_from LOut rest)"
  "lex_from LOut (CHR ''{'' # rest) = map_option ((#) TLBrace) (lex_from LOut rest)"
  "lex_from LOut (CHR ''}'' # rest) = map_option ((#) TRBrace) (lex_from LOut rest)"
  "lex_from LOut (CHR '':'' # rest) = map_option ((#) TColon) (lex_from LOut rest)"
  "lex_from LOut (CHR '','' # rest) = map_option ((#) TComma) (lex_from LOut rest)"
  by (simp_all add: out_step_def json_ws_def split: option.splits)

lemma join_Cons: "join sep (x # xs) = x @ concat (map (\<lambda>y. sep @ y) xs)"
  by (induction xs arbitrary: x) simp_all

lemma lex_more_strings:
  "lex_from LOut (concat (map (\<lambda>y. '','' @ y) (map json_quote xs)) @ rest) =
     map_option (\<lambda>r. concat (map (\<lambda>s. [TComma, TStr s]) xs) @ r) (lex_from LOut rest)"
proof (induction xs)
  case Nil
  show ?case by (simp add: option.map_ident)
next
  case (Cons x xs)
  show ?case
  proof -
    have "lex_from LOut (concat (map (\<lambda>y. '','' @ y) (map json_quote (x # xs))) @ rest)
        = lex_from LOut (CHR '','' # (json_quote x @ (concat (map (\<lambda>y. '','' @ y) (map json_quote xs)) @ rest)))"
      by simp
    also have "\<dots> = map_option ((#) TComma)
        (lex_from LOut (json_quote x @ (concat (map (\<lambda>y. '','' @ y) (map json_quote xs)) @ rest)))"
      by (rule lex_punct)
    finally show ?thesis
      unfolding lex_json_quote Cons.IH by (cases "lex_from LOut rest") simp_all
  qed
qed

lemma parse_more_strings:
  "parse_tokens (PDone (JStr x) (FArr items # stk)) (concat (map (\<lambda>s. [TComma, TStr s]) xs) @ TRBrack # ts)
     = parse_tokens (PDone (JArr (items @ map JStr (x # xs))) stk) ts"
  by (induction xs arbitrary: x items) simp_all

theorem JSON_parse_strings:
  "JSON_parse (stringify_strings xs) = Some (JArr (map JStr xs))"
proof (cases xs)
  case Nil
  then show ?thesis
    by (simp add: stringify_strings_def stringify_text_def JSON_parse_def out_step_def json_ws_def)
next
  case (Cons x ys)
  have shape: "stringify_strings xs =
      CHR ''['' # json_quote x @ concat (map (\<lambda>y. '','' @ y) (map json_quote ys)) @ '']''"
    using Cons by (simp add: stringify_strings_def stringify_text_def join_Cons comp_def)
  have toks: "lex_from LOut (stringify_strings xs) =
      Some (TLBrack # TStr x # concat (map (\<lambda>s. [TComma, TStr s]) ys) @ [TRBrack])"
  proof -
    have "lex_from LOut ('']'' @ []) = Some [TRBrack]"
      by (simp add: out_step_def json_ws_def)
    then show ?thesis
      unfolding shape lex_punct(1) lex_json_quote lex_more_strings by simp
  qed
  show ?thesis
    unfolding JSON_parse_def toks using parse_more_strings [of x "[]" "[]" ys "[]"] Cons by simp
qed












section \<open>Capability gate: the decision rule\<close>

lemma firstDenied_None:
  "(firstDenied rules tools = None) =
     (\<forall>tool \<in> set tools.
        CapabilityDecision.allowed
          (decisionFromRule tool (mode rules) (allowTools rules) (denyTools rules) ''tool''))"
  by (induction tools) (auto simp: Let_def)

lemma firstDenied_Some:
  "firstDenied rules tools = Some d \<Longrightarrow> \<not> CapabilityDecision.allowed d"
  by (induction tools) (auto simp: Let_def split: if_splits)

lemma decisionFromRule_allowed:
  "CapabilityDecision.allowed (decisionFromRule v m allowSet denySet valueType) =
     (v \<notin> set denySet \<and> (if allowSet \<noteq> [] then v \<in> set allowSet else m = ModeAllow))"
  by (cases m) (simp_all add: decisionFromRule_def)

text \<open>
  C4 (as amended).  A value passes \<open>decisionFromRule\<close> exactly when it is not in the
  deny set and, if the allow set is non-empty, it is in the allow set, the mode deciding
  only when the allow set is empty.  A batch of tools passes exactly when it
  normalizes to nothing, or the action \<open>tool.execute\<close> passes and every normalized tool
  passes against the scope's tool sets.
\<close>

theorem capability_gate_decision:
  "CapabilityDecision.allowed (decisionFromRule v m allowSet denySet valueType) =
     (v \<notin> set denySet \<and> (if allowSet \<noteq> [] then v \<in> set allowSet else m = ModeAllow))
   \<and> CapabilityDecision.allowed (evaluateToolExecution eng names hint) =
     (normalizeList names = [] \<or>
      (''tool.execute'' \<notin> set (denyActions (resolveRules eng hint))
       \<and> (if allowActions (resolveRules eng hint) \<noteq> []
           then ''tool.execute'' \<in> set (allowActions (resolveRules eng hint))
           else mode (resolveRules eng hint) = ModeAllow)
       \<and> (\<forall>tool \<in> set (normalizeList names).
             tool \<notin> set (denyTools (resolveRules eng hint))
             \<and> (if allowTools (resolveRules eng hint) \<noteq> []
                 then tool \<in> set (allowTools (resolveRules eng hint))
                 else mode (resolveRules eng hint) = ModeAllow))))"
proof -
  let ?rules = "resolveRules eng hint"
  let ?action = "decisionFromRule ''tool.execute'' (mode ?rules) (allowActions ?rules)
      (denyActions ?rules) ''action''"
  have batch: "CapabilityDecision.allowed (evaluateToolExecution eng names hint) =
      (normalizeList names = [] \<or>
        (CapabilityDecision.allowed ?action \<and> firstDenied ?rules (normalizeList names) = None))"
    by (auto simp: evaluateToolExecution_def Let_def dest: firstDenied_Some split: option.splits)
  show ?thesis
    unfolding batch firstDenied_None decisionFromRule_allowed by simp
qed

theorem capability_gate_decision_witness:
  "CapabilityDecision.allowed (decisionFromRule ''read_file'' ModeDeny [''read_file''] [''shell''] ''tool'')
   \<and> \<not> CapabilityDecision.allowed
        (evaluateToolExecution
           \<lparr>defaults = \<lparr>mode = ModeAllow, allowTools = [], denyTools = [''shell''],
                        allowActions = [], denyActions = []\<rparr>,
            channels = []\<rparr> ['' Shell ''] [])"
  using capability_gate_decision [of "''read_file''" ModeDeny "[''read_file'']" "[''shell'']" "''tool''"
      "\<lparr>defaults = \<lparr>mode = ModeAllow, allowTools = [], denyTools = [''shell''],
                        allowActions = [], denyActions = []\<rparr>,
            channels = []\<rparr>" "['' Shell '']" "[]"]
  by (simp add: normalizeList_def js_sort_def resolveRules_def js_string_defs)

text \<open>
  C4 as stated fails: under \<open>mode = allow\<close> with a non-empty allow list, a tool that
  is in neither list is denied.
\<close>

theorem capability_allowlist_counterexample:
  "''write_file'' \<notin> set ([] :: string list) \<and> ''write_file'' \<notin> set [''read_file'']
   \<and> \<not> CapabilityDecision.allowed
        (decisionFromRule ''write_file'' ModeAllow [''read_file''] [] ''tool'')
   \<and> \<not> CapabilityDecision.allowed
        (evaluateToolExecution
           \<lparr>defaults = \<lparr>mode = ModeAllow, allowTools = [''read_file''], denyTools = [],
                        allowActions = [], denyActions = []\<rparr>,
            channels = []\<rparr> [''write_file''] [])"
  by (simp add: decisionFromRule_def evaluateToolExecution_def normalizeList_def js_sort_def
      resolveRules_def js_string_defs)



section \<open>Budget controller: the projected check\<close>

lemma show_nat_eval:
  "show_nat (numeral k) =
     (if (numeral k :: nat) < 10 then [digit_char (numeral k)]
      else show_nat (numeral k div 10) @ [digit_char (numeral k mod 10)])"
  by (rule show_nat.simps)

lemma show_nat_1: "show_nat (Suc 0) = [digit_char 1]"
  by (simp add: show_nat.simps)

lemma toFixed_104: "toFixed 4 (26 / 25) = ''1.0400''"
proof -
  have "\<lfloor>\<bar>26 / 25 :: rat\<bar> * 10 ^ 4 + 1 / 2\<rfloor> = 10400" by (simp add: floor_eq_iff)
  then show ?thesis
    by (simp add: toFixed_def Let_def show_nat_eval show_nat_1 digit_char_def char_of_eval)
qed

lemma toFixed_1: "toFixed 4 1 = ''1.0000''"
proof -
  have "\<lfloor>\<bar>1 :: rat\<bar> * 10 ^ 4 + 1 / 2\<rfloor> = 10000" by (simp add: floor_eq_iff)
  then show ?thesis
    by (simp add: toFixed_def Let_def show_nat_eval show_nat_1 digit_char_def char_of_eval)
qed

text \<open>An hourly projection above the cap suspends the controller with the reason built
  from the two amounts.\<close>

lemma evaluateProjected_hourly:
  assumes "suspended (budget_state d) \<noteq> 1"
    and "hourlyUsdCap policy < hourlyUsd (readUsage hourStart dayStart d) + estimatedUsd estimate"
  shows "evaluateProjected hourStart dayStart triggeredAt updatedAt policy (Some d) estimate =
     Inr (suspend triggeredAt updatedAt
              (''Hourly compute budget exceeded (''
                 @ toFixed 4 (hourlyUsd (readUsage hourStart dayStart d) + estimatedUsd estimate)
                 @ '' > '' @ toFixed 4 (hourlyUsdCap policy) @ '' USD).'') d,
          BudgetResult.make Suspend (Some (''Hourly compute budget exceeded (''
                 @ toFixed 4 (hourlyUsd (readUsage hourStart dayStart d) + estimatedUsd estimate)
                 @ '' > '' @ toFixed 4 (hourlyUsdCap policy) @ '' USD).'')))"
  using assms by (simp add: evaluateProjected_def Let_def BudgetResult.make_def)

lemma includes_amounts:
  "includes_str ''Hourly compute budget exceeded (1.0400 > 1.0000 USD).'' ''1.0400 > 1.0000''"
  "\<not> includes_str ''Hourly compute budget exceeded (1.0400 > 1.0000 USD).'' ''1.04 > 1.00''"
  by (simp_all add: startsWith_def)

text \<open>
  C5 (as amended).  With an hourly cap of 1.00 USD and cost events of the rolling hour
  that sum to 0.99 USD, the projected evaluation of an estimate of 0.05 USD on a
  controller that is not suspended returns the decision \<open>suspend\<close> and stores the
  suspension; the reason, returned and stored, prints both amounts with four decimals
  and so contains \<open>1.0400 > 1.0000\<close>.
\<close>

theorem projected_suspension:
  assumes "suspended (budget_state d) \<noteq> 1"
    and "hourlyUsdCap policy = 1"
    and "hourlyUsd (readUsage hourStart dayStart d) = 99 / 100"
    and "estimatedUsd estimate = 5 / 100"
  shows "\<exists>d' r.
      evaluateProjected hourStart dayStart triggeredAt updatedAt policy (Some d) estimate = Inr (d', r)
    \<and> BudgetResult.decision r = Suspend
    \<and> BudgetResult.reason r = Some ''Hourly compute budget exceeded (1.0400 > 1.0000 USD).''
    \<and> suspended (budget_state d') = 1
    \<and> BudgetState.reason (budget_state d') = Some ''Hourly compute budget exceeded (1.0400 > 1.0000 USD).''
    \<and> cost_events d' = cost_events d
    \<and> includes_str ''Hourly compute budget exceeded (1.0400 > 1.0000 USD).'' ''1.0400 > 1.0000''"
proof -
  have sum: "hourlyUsd (readUsage hourStart dayStart d) + estimatedUsd estimate = 26 / 25"
    using assms(3,4) by simp
  have over: "hourlyUsdCap policy < hourlyUsd (readUsage hourStart dayStart d) + estimatedUsd estimate"
    unfolding sum assms(2) by simp
  show ?thesis
    unfolding evaluateProjected_hourly [OF assms(1) over] sum assms(2) toFixed_104 toFixed_1
    using includes_amounts(1) by (simp add: suspend_def BudgetResult.make_def)
qed

lemma hour_window:
  "''2026-01-01T10:00:00.000Z'' \<le> ''2026-01-01T10:30:00.000Z''"
  by (simp add: less_char_def)

theorem projected_suspension_witness:
  "BudgetResult.decision (snd (projr (evaluateProjected ''2026-01-01T10:00:00.000Z'' ''2026-01-01T00:00:00.000Z''
        ''2026-01-01T11:00:00.000Z'' ''2026-01-01T11:00:00.001Z''
        \<lparr>hourlyUsdCap = 1, dailyUsdCap = 100\<rparr>
        (Some \<lparr>cost_events =
            [\<lparr>timestamp = ''2026-01-01T10:30:00.000Z'', CostEvent.model = ''m'', input_tokens = 1,
              output_tokens = 1, usd_cost = 99 / 100, request_path = ''/v1''\<rparr>],
          budget_state = \<lparr>suspended = 0, BudgetState.reason = None, triggered_at = None,
              resumed_at = None, resumed_by = None, updated_at = ''2026-01-01 09:00:00''\<rparr>\<rparr>)
        \<lparr>CostEstimate.model = ''m'', inputTokens = 10, outputTokens = 10, estimatedUsd = 5 / 100\<rparr>))) = Suspend
   \<and> suspended (budget_state (fst (projr (evaluateProjected ''2026-01-01T10:00:00.000Z'' ''2026-01-01T00:00:00.000Z''
        ''2026-01-01T11:00:00.000Z'' ''2026-01-01T11:00:00.001Z''
        \<lparr>hourlyUsdCap = 1, dailyUsdCap = 100\<rparr>
        (Some \<lparr>cost_events =
            [\<lparr>timestamp = ''2026-01-01T10:30:00.000Z'', CostEvent.model = ''m'', input_tokens = 1,
              output_tokens = 1, usd_cost = 99 / 100, request_path = ''/v1''\<rparr>],
          budget_state = \<lparr>suspended = 0, BudgetState.reason = None, triggered_at = None,
              resumed_at = None, resumed_by = None, updated_at = ''2026-01-01 09:00:00''\<rparr>\<rparr>)
        \<lparr>CostEstimate.model = ''m'', inputTokens = 10, outputTokens = 10, estimatedUsd = 5 / 100\<rparr>)))) = 1"
proof -
  have u: "hourlyUsd (readUsage ''2026-01-01T10:00:00.000Z'' ''2026-01-01T00:00:00.000Z''
      \<lparr>cost_events =
            [\<lparr>timestamp = ''2026-01-01T10:30:00.000Z'', CostEvent.model = ''m'', input_tokens = 1,
              output_tokens = 1, usd_cost = 99 / 100, request_path = ''/v1''\<rparr>],
          budget_state = \<lparr>suspended = 0, BudgetState.reason = None, triggered_at = None,
              resumed_at = None, resumed_by = None, updated_at = ''2026-01-01 09:00:00''\<rparr>\<rparr>) = 99 / 100"
    using hour_window by (simp add: readUsage_def)
  from projected_suspension [of
      "\<lparr>cost_events =
            [\<lparr>timestamp = ''2026-01-01T10:30:00.000Z'', CostEvent.model = ''m'', input_tokens = 1,
              output_tokens = 1, usd_cost = 99 / 100, request_path = ''/v1''\<rparr>],
          budget_state = \<lparr>suspended = 0, BudgetState.reason = None, triggered_at = None,
              resumed_at = None, resumed_by = None, updated_at = ''2026-01-01 09:00:00''\<rparr>\<rparr>"
      "\<lparr>hourlyUsdCap = 1, dailyUsdCap = 100\<rparr>" "''2026-01-01T10:00:00.000Z''" "''2026-01-01T00:00:00.000Z''"
      "\<lparr>CostEstimate.model = ''m'', inputTokens = 10, outputTokens = 10, estimatedUsd = 5 / 100\<rparr>"
      "''2026-01-01T11:00:00.000Z''" "''2026-01-01T11:00:00.001Z''", OF _ _ u]
  obtain d' r where "evaluateProjected ''2026-01-01T10:00:00.000Z'' ''2026-01-01T00:00:00.000Z''
        ''2026-01-01T11:00:00.000Z'' ''2026-01-01T11:00:00.001Z''
        \<lparr>hourlyUsdCap = 1, dailyUsdCap = 100\<rparr>
        (Some \<lparr>cost_events =
            [\<lparr>timestamp = ''2026-01-01T10:30:00.000Z'', CostEvent.model = ''m'', input_tokens = 1,
              output_tokens = 1, usd_cost = 99 / 100, request_path = ''/v1''\<rparr>],
          budget_state = \<lparr>suspended = 0, BudgetState.reason = None, triggered_at = None,
              resumed_at = None, resumed_by = None, updated_at = ''2026-01-01 09:00:00''\<rparr>\<rparr>)
        \<lparr>CostEstimate.model = ''m'', inputTokens = 10, outputTokens = 10, estimatedUsd = 5 / 100\<rparr> = Inr (d', r)"
    "BudgetResult.decision r = Suspend" "suspended (budget_state d') = 1"
    by auto
  then show ?thesis by simp
qed

text \<open>
  C5 as stated fails on the text of the reason: the amounts are printed by
  \<open>toFixed(4)\<close>, and \<open>1.04 > 1.00\<close> does not occur in \<open>1.0400 > 1.0000\<close>.
\<close>

theorem projected_reason_counterexample:
  "evaluateProjected ''2026-01-01T10:00:00.000Z'' ''2026-01-01T00:00:00.000Z''
        ''2026-01-01T11:00:00.000Z'' ''2026-01-01T11:00:00.001Z''
        \<lparr>hourlyUsdCap = 1, dailyUsdCap = 100\<rparr>
        (Some \<lparr>cost_events =
            [\<lparr>timestamp = ''2026-01-01T10:30:00.000Z'', CostEvent.model = ''m'', input_tokens = 1,
              output_tokens = 1, usd_cost = 99 / 100, request_path = ''/v1''\<rparr>],
          budget_state = \<lparr>suspended = 0, BudgetState.reason = None, triggered_at = None,
              resumed_at = None, resumed_by = None, updated_at = ''2026-01-01 09:00:00''\<rparr>\<rparr>)
        \<lparr>CostEstimate.model = ''m'', inputTokens = 10, outputTokens = 10, estimatedUsd = 5 / 100\<rparr>
     = Inr (\<lparr>cost_events =
            [\<lparr>timestamp = ''2026-01-01T10:30:00.000Z'', CostEvent.model = ''m'', input_tokens = 1,
              output_tokens = 1, usd_cost = 99 / 100, request_path = ''/v1''\<rparr>],
          budget_state = \<lparr>suspended = 1,
              BudgetState.reason = Some ''Hourly compute budget exceeded (1.0400 > 1.0000 USD).'',
              triggered_at = Some ''2026-01-01T11:00:00.000Z'',
              resumed_at = None, resumed_by = None,
              updated_at = ''2026-01-01T11:00:00.001Z''\<rparr>\<rparr>,
            BudgetResult.make Suspend (Some ''Hourly compute budget exceeded (1.0400 > 1.0000 USD).''))
   \<and> \<not> includes_str ''Hourly compute budget exceeded (1.0400 > 1.0000 USD).'' ''1.04 > 1.00''"
proof -
  have s: "(99 / 100 + 5 / 100 :: rat) = 26 / 25" by simp
  show ?thesis
    using hour_window includes_amounts(2)
    by (simp add: evaluateProjected_def readUsage_def Let_def s toFixed_104 toFixed_1 suspend_def
        BudgetResult.make_def)
qed

section \<open>Policy engine: the tie-break\<close>

lemma tool_not_critical:
  "(\<exists>signal \<in> set (toolSignals eng names). startsWith signal ''critical-pattern'') = False"
  by (simp add: toolSignals_def startsWith_def)

lemma tool_high_risk:
  "(\<exists>signal \<in> set (toolSignals eng names). startsWith signal ''high-risk'')
     = (\<exists>n \<in> set names. toLowerCase n \<in> set (highRiskTools eng))"
  by (simp add: toolSignals_def startsWith_def Bex_def)

lemma critical_pattern_critical:
  "(\<exists>signal \<in> set (patternSignals ''critical-pattern:'' ps bodyText). startsWith signal ''critical-pattern'')
     = (\<exists>p \<in> set ps. includes_str bodyText p)"
  by (simp add: patternSignals_def startsWith_def Bex_def)

lemma critical_pattern_not_high:
  "(\<exists>signal \<in> set (patternSignals ''critical-pattern:'' ps bodyText). startsWith signal ''high-risk'') = False"
  by (simp add: patternSignals_def startsWith_def)

lemma high_pattern_not_critical:
  "(\<exists>signal \<in> set (patternSignals ''high-risk-pattern:'' ps bodyText). startsWith signal ''critical-pattern'') = False"
  by (simp add: patternSignals_def startsWith_def)

lemma high_pattern_high:
  "(\<exists>signal \<in> set (patternSignals ''high-risk-pattern:'' ps bodyText). startsWith signal ''high-risk'')
     = (\<exists>p \<in> set ps. includes_str bodyText p)"
  by (simp add: patternSignals_def startsWith_def Bex_def)

lemma path_not_critical:
  "(\<exists>signal \<in> set (pathSignals lp lm). startsWith signal ''critical-pattern'') = False"
  by (simp add: pathSignals_def startsWith_def)

lemma path_high:
  "(\<exists>signal \<in> set (pathSignals lp lm). startsWith signal ''high-risk'')
     = ((includes_str lp ''admin'' \<or> includes_str lp ''system'') \<and> lm \<noteq> ''get'')"
  by (simp add: pathSignals_def startsWith_def)

lemma modality_neither:
  "(\<exists>signal \<in> set (modalitySignals m). startsWith signal ''critical-pattern'') = False"
  "(\<exists>signal \<in> set (modalitySignals m). startsWith signal ''high-risk'') = False"
  by (simp_all add: modalitySignals_def startsWith_def)

lemmas signal_class =
  tool_not_critical tool_high_risk critical_pattern_critical critical_pattern_not_high
  high_pattern_not_critical high_pattern_high path_not_critical path_high modality_neither

lemma bex_append: "(\<exists>x \<in> set (xs @ ys). P x) = ((\<exists>x \<in> set xs. P x) \<or> (\<exists>x \<in> set ys. P x))"
  by auto

lemma hasCritical_iff:
  "(\<exists>signal \<in> set (toolSignals eng names
        @ patternSignals ''critical-pattern:'' cps bodyText
        @ patternSignals ''high-risk-pattern:'' hps bodyText
        @ pathSignals lp lm @ modalitySignals m). startsWith signal ''critical-pattern'')
   = (\<exists>p \<in> set cps. includes_str bodyText p)"
  unfolding bex_append signal_class by simp

lemma hasHighRisk_iff:
  "(\<exists>signal \<in> set (toolSignals eng names
        @ patternSignals ''critical-pattern:'' cps bodyText
        @ patternSignals ''high-risk-pattern:'' hps bodyText
        @ pathSignals lp lm @ modalitySignals m). startsWith signal ''high-risk'')
   = ((\<exists>n \<in> set names. toLowerCase n \<in> set (highRiskTools eng))
      \<or> (\<exists>p \<in> set hps. includes_str bodyText p)
      \<or> ((includes_str lp ''admin'' \<or> includes_str lp ''system'') \<and> lm \<noteq> ''get''))"
  unfolding bex_append signal_class by simp

text \<open>
  C1.  For every engine state and input: if the lower-cased JSON text of the body
  contains one of the engine's critical patterns the decision is \<open>block\<close> at risk
  \<open>critical\<close>; otherwise, if a lower-cased tool name is a high-risk tool, or the body
  text contains a high-risk pattern, or the lower-cased path contains \<open>admin\<close> or
  \<open>system\<close> and the lower-cased method is not \<open>get\<close>, it is \<open>require_approval\<close>
  at risk \<open>high\<close>; otherwise \<open>allow\<close> at risk \<open>low\<close>.  In every case
  \<open>matchedSignals\<close> is the list of the matched signals: tools, critical patterns,
  high-risk patterns, the path signal, the modality signal.
\<close>

theorem policy_tie_break:
  "(if \<exists>p \<in> set (criticalPatterns eng). includes_str (toText (body input)) p
    then decision (evaluate eng input) = Block \<and> riskClass (evaluate eng input) = Critical
    else if (\<exists>n \<in> set (toolNames (intent input)). toLowerCase n \<in> set (highRiskTools eng))
          \<or> (\<exists>p \<in> set (highRiskPatterns eng). includes_str (toText (body input)) p)
          \<or> ((includes_str (toLowerCase (path input)) ''admin''
               \<or> includes_str (toLowerCase (path input)) ''system'')
              \<and> toLowerCase (http_method input) \<noteq> ''get'')
    then decision (evaluate eng input) = RequireApproval \<and> riskClass (evaluate eng input) = High
    else decision (evaluate eng input) = Allow \<and> riskClass (evaluate eng input) = Low)
   \<and> matchedSignals (evaluate eng input) =
       map (\<lambda>n. ''high-risk-tool:'' @ n)
         (filter (\<lambda>n. n \<in> set (highRiskTools eng)) (map toLowerCase (toolNames (intent input))))
       @ map (\<lambda>p. ''critical-pattern:'' @ p)
           (filter (\<lambda>p. includes_str (toText (body input)) p) (criticalPatterns eng))
       @ map (\<lambda>p. ''high-risk-pattern:'' @ p)
           (filter (\<lambda>p. includes_str (toText (body input)) p) (highRiskPatterns eng))
       @ (if (includes_str (toLowerCase (path input)) ''admin''
               \<or> includes_str (toLowerCase (path input)) ''system'')
              \<and> toLowerCase (http_method input) \<noteq> ''get''
          then [''high-risk-path:admin-system''] else [])
       @ (if modality input = Audio then [''modality:audio'']
          else if modality input = Vision then [''modality:vision''] else [])"
proof -
  have sig: "matchedSignals (evaluate eng input) =
      toolSignals eng (toolNames (intent input))
      @ patternSignals ''critical-pattern:'' (criticalPatterns eng) (toText (body input))
      @ patternSignals ''high-risk-pattern:'' (highRiskPatterns eng) (toText (body input))
      @ pathSignals (toLowerCase (path input)) (toLowerCase (http_method input))
      @ modalitySignals (modality input)"
    by (simp add: evaluate_def Let_def)
  have dec: "decision (evaluate eng input) =
      (if \<exists>p \<in> set (criticalPatterns eng). includes_str (toText (body input)) p then Block
       else if (\<exists>n \<in> set (toolNames (intent input)). toLowerCase n \<in> set (highRiskTools eng))
          \<or> (\<exists>p \<in> set (highRiskPatterns eng). includes_str (toText (body input)) p)
          \<or> ((includes_str (toLowerCase (path input)) ''admin''
               \<or> includes_str (toLowerCase (path input)) ''system'')
              \<and> toLowerCase (http_method input) \<noteq> ''get'') then RequireApproval else Allow)"
    unfolding evaluate_def Let_def hasCritical_iff hasHighRisk_iff by auto
  have risk: "riskClass (evaluate eng input) =
      (if \<exists>p \<in> set (criticalPatterns eng). includes_str (toText (body input)) p then Critical
       else if (\<exists>n \<in> set (toolNames (intent input)). toLowerCase n \<in> set (highRiskTools eng))
          \<or> (\<exists>p \<in> set (highRiskPatterns eng). includes_str (toText (body input)) p)
          \<or> ((includes_str (toLowerCase (path input)) ''admin''
               \<or> includes_str (toLowerCase (path input)) ''system'')
              \<and> toLowerCase (http_method input) \<noteq> ''get'') then High else Low)"
    unfolding evaluate_def Let_def hasCritical_iff hasHighRisk_iff by auto
  show ?thesis
    unfolding sig dec risk
    by (auto simp: toolSignals_def patternSignals_def pathSignals_def modalitySignals_def)
qed


theorem policy_tie_break_witness:
  "decision (evaluate \<lparr>highRiskTools = [''shell''], criticalPatterns = [''rm -rf''], highRiskPatterns = [''prod'']\<rparr>
      \<lparr>path = ''/v1'', http_method = ''POST'', body = JStr ''RM -rf /'',
       model = ''m'', modality = Audio, intent = \<lparr>hasToolIntent = True, toolNames = [''Shell'']\<rparr>\<rparr>) = Block
   \<and> riskClass (evaluate \<lparr>highRiskTools = [''shell''], criticalPatterns = [''rm -rf''], highRiskPatterns = [''prod'']\<rparr>
      \<lparr>path = ''/v1'', http_method = ''POST'', body = JStr ''RM -rf /'',
       model = ''m'', modality = Audio, intent = \<lparr>hasToolIntent = True, toolNames = [''Shell'']\<rparr>\<rparr>) = Critical
   \<and> PolicyDecision.matchedSignals (evaluate \<lparr>highRiskTools = [''shell''], criticalPatterns = [''rm -rf''], highRiskPatterns = [''prod'']\<rparr>
      \<lparr>path = ''/v1'', http_method = ''POST'', body = JStr ''RM -rf /'',
       model = ''m'', modality = Audio, intent = \<lparr>hasToolIntent = True, toolNames = [''Shell'']\<rparr>\<rparr>)
     = [''high-risk-tool:shell'', ''critical-pattern:rm -rf'', ''modality:audio'']"
proof -
  have t: "toText (JStr ''RM -rf /'') = [CHR 0x22] @ ''rm -rf /'' @ [CHR 0x22]"
    by (simp add: toText_def js_string_defs)
  have l: "toLowerCase ''Shell'' = ''shell''" "toLowerCase ''/v1'' = ''/v1''"
    by (simp_all add: js_string_defs)
  show ?thesis
    using policy_tie_break [of "\<lparr>highRiskTools = [''shell''], criticalPatterns = [''rm -rf''], highRiskPatterns = [''prod'']\<rparr>"
      "\<lparr>path = ''/v1'', http_method = ''POST'', body = JStr ''RM -rf /'',
       model = ''m'', modality = Audio, intent = \<lparr>hasToolIntent = True, toolNames = [''Shell'']\<rparr>\<rparr>"]
    by (simp add: t l startsWith_def)
qed

section \<open>Approval service: consumption, use limits and expiry\<close>

lemma cleanupExpired_row_id [simp]: "map row_id (cleanupExpired t db) = map row_id db"
  by (simp add: cleanupExpired_def update_where_def)

lemma cleanupExpired_use_count [simp]: "map use_count (cleanupExpired t db) = map use_count db"
  by (simp add: cleanupExpired_def update_where_def)

lemma getById_Some_iff:
  "distinct (map row_id db) \<Longrightarrow> (getById db i = Some r) = (r \<in> set db \<and> row_id r = i)"
  unfolding getById_def
proof (induction db)
  case Nil
  then show ?case by simp
next
  case (Cons a db)
  then show ?case by (auto simp: image_iff)
qed

lemma getById_cleanup_approved:
  "(getById (cleanupExpired t db) i = Some r \<and> status r = Approved) =
   (getById db i = Some r \<and> status r = Approved)"
  unfolding getById_def cleanupExpired_def update_where_def
  by (induction db) auto

lemma getById_update_where:
  "distinct (map row_id db) \<Longrightarrow> getById db i = Some r \<Longrightarrow> (\<And>x. row_id (f x) = row_id x) \<Longrightarrow>
   getById (update_where P f db) i = Some (if P r then f r else r)"
  unfolding getById_def update_where_def
  by (induction db) (auto split: if_splits)

text \<open>
  C2.  On a table with unique keys, \<open>consumeApproved\<close> returns true exactly when the
  row of the key exists with status approved, the given fingerprint, \<open>expires_at\<close> not
  earlier than now and \<open>use_count < max_uses\<close>; then that row has its \<open>use_count\<close>
  incremented and \<open>last_used_at\<close> set to now.  No other \<open>use_count\<close> changes, and
  none at all when the result is false; so \<open>use_count \<le> max_uses\<close> on every row is
  preserved.
\<close>

theorem consumeApproved_exact:
  assumes "distinct (map row_id db)"
  shows "snd (consumeApproved cleanupNow nowIso db i fp) =
           (\<exists>r. getById db i = Some r \<and> status r = Approved \<and> request_fingerprint r = fp
                \<and> nowIso \<le> expires_at r \<and> use_count r < max_uses r)
       \<and> (snd (consumeApproved cleanupNow nowIso db i fp) \<longrightarrow>
            (\<exists>r. getById db i = Some r
               \<and> getById (fst (consumeApproved cleanupNow nowIso db i fp)) i
                   = Some (r\<lparr>use_count := use_count r + 1, last_used_at := Some nowIso\<rparr>)))
       \<and> map use_count (fst (consumeApproved cleanupNow nowIso db i fp)) =
            map (\<lambda>r. if snd (consumeApproved cleanupNow nowIso db i fp) \<and> row_id r = i
                      then use_count r + 1 else use_count r) db
       \<and> ((\<forall>r \<in> set db. use_count r \<le> max_uses r) \<longrightarrow>
            (\<forall>r \<in> set (fst (consumeApproved cleanupNow nowIso db i fp)). use_count r \<le> max_uses r))"
proof -
  let ?db = "cleanupExpired cleanupNow db"
  let ?hit = "\<lambda>r. row_id r = i \<and> status r = Approved \<and> request_fingerprint r = fp
                      \<and> expires_at r \<ge> nowIso \<and> use_count r < max_uses r"
  let ?bump = "\<lambda>r. r\<lparr>use_count := use_count r + 1, last_used_at := Some nowIso\<rparr>"
  have d: "distinct (map row_id ?db)" using assms by simp
  have res: "consumeApproved cleanupNow nowIso db i fp =
      (update_where ?hit ?bump ?db, \<exists>r \<in> set ?db. ?hit r)"
    by (auto simp: consumeApproved_def Let_def filter_empty_conv)
  have ok: "(\<exists>r \<in> set ?db. ?hit r) =
      (\<exists>r. getById db i = Some r \<and> status r = Approved \<and> request_fingerprint r = fp
           \<and> nowIso \<le> expires_at r \<and> use_count r < max_uses r)" (is "?L = ?R")
  proof
    assume ?L
    then obtain r where r: "r \<in> set ?db" "?hit r" by blast
    then have "getById ?db i = Some r" using getById_Some_iff [OF d] by simp
    with r have "getById db i = Some r" using getById_cleanup_approved [of cleanupNow db i r] by simp
    with r show ?R by blast
  next
    assume ?R
    then obtain r where r: "getById db i = Some r" "status r = Approved" "request_fingerprint r = fp"
        "nowIso \<le> expires_at r" "use_count r < max_uses r" by blast
    then have "getById ?db i = Some r" using getById_cleanup_approved [of cleanupNow db i r] by simp
    then have "r \<in> set ?db \<and> row_id r = i" using getById_Some_iff [OF d] by simp
    with r show ?L by blast
  qed
  have c1: "snd (consumeApproved cleanupNow nowIso db i fp) =
           (\<exists>r. getById db i = Some r \<and> status r = Approved \<and> request_fingerprint r = fp
                \<and> nowIso \<le> expires_at r \<and> use_count r < max_uses r)"
    unfolding res using ok by simp
  have c2: "snd (consumeApproved cleanupNow nowIso db i fp) \<longrightarrow>
            (\<exists>r. getById db i = Some r
               \<and> getById (fst (consumeApproved cleanupNow nowIso db i fp)) i = Some (?bump r))"
  proof
    assume "snd (consumeApproved cleanupNow nowIso db i fp)"
    then obtain r where r: "getById db i = Some r" "status r = Approved" "request_fingerprint r = fp"
        "nowIso \<le> expires_at r" "use_count r < max_uses r" using c1 by blast
    then have g: "getById ?db i = Some r" using getById_cleanup_approved [of cleanupNow db i r] by simp
    then have "row_id r = i" using getById_Some_iff [OF d] by simp
    with r have "?hit r" by simp
    with getById_update_where [OF d g, of ?bump ?hit]
    have "getById (update_where ?hit ?bump ?db) i = Some (?bump r)" by simp
    with r show "\<exists>r. getById db i = Some r
               \<and> getById (fst (consumeApproved cleanupNow nowIso db i fp)) i = Some (?bump r)"
      unfolding res by auto
  qed
  have uc: "\<And>r. r \<in> set db \<Longrightarrow> row_id r = i \<Longrightarrow> \<exists>x \<in> set ?db. ?hit x \<Longrightarrow>
      ?hit (if status r = Pending \<and> expires_at r < cleanupNow then r\<lparr>status := Expired\<rparr> else r)"
  proof -
    fix r assume r: "r \<in> set db" "row_id r = i" and "\<exists>x \<in> set ?db. ?hit x"
    then obtain x where x: "getById db i = Some x" "status x = Approved" "request_fingerprint x = fp"
        "nowIso \<le> expires_at x" "use_count x < max_uses x" using ok by blast
    from r have "getById db i = Some r" using getById_Some_iff [OF assms] by simp
    with x have "x = r" by simp
    with x r show "?hit (if status r = Pending \<and> expires_at r < cleanupNow then r\<lparr>status := Expired\<rparr> else r)"
      by simp
  qed
  have c3: "map use_count (fst (consumeApproved cleanupNow nowIso db i fp)) =
            map (\<lambda>r. if snd (consumeApproved cleanupNow nowIso db i fp) \<and> row_id r = i
                      then use_count r + 1 else use_count r) db"
  proof -
    let ?cl = "\<lambda>r. if status r = Pending \<and> expires_at r < cleanupNow then r\<lparr>status := Expired\<rparr> else r"
    have shape: "update_where ?hit ?bump ?db = map (\<lambda>r. if ?hit (?cl r) then ?bump (?cl r) else ?cl r) db"
      by (simp add: update_where_def cleanupExpired_def)
    have point: "use_count (if ?hit (?cl r) then ?bump (?cl r) else ?cl r) =
        (if (\<exists>x \<in> set ?db. ?hit x) \<and> row_id r = i then use_count r + 1 else use_count r)"
      if r: "r \<in> set db" for r
    proof (cases "?hit (?cl r)")
      case True
      have "?cl r \<in> set ?db" using r by (simp add: cleanupExpired_def update_where_def)
      with True have "\<exists>x \<in> set ?db. ?hit x" by blast
      moreover from True have "row_id r = i" by (simp split: if_splits)
      ultimately show ?thesis using True by (simp split: if_splits)
    next
      case False
      have "\<not> ((\<exists>x \<in> set ?db. ?hit x) \<and> row_id r = i)" using uc [OF r] False by blast
      with False show ?thesis by (simp split: if_splits)
    qed
    have "map use_count (update_where ?hit ?bump ?db) =
        map (\<lambda>r. use_count (if ?hit (?cl r) then ?bump (?cl r) else ?cl r)) db"
      unfolding shape by (simp add: comp_def)
    also have "\<dots> = map (\<lambda>r. if (\<exists>x \<in> set ?db. ?hit x) \<and> row_id r = i
          then use_count r + 1 else use_count r) db"
      using point by (intro map_cong refl) blast
    finally show ?thesis unfolding res fst_conv snd_conv .
  qed
  have c4: "(\<forall>r \<in> set db. use_count r \<le> max_uses r) \<longrightarrow>
            (\<forall>r \<in> set (fst (consumeApproved cleanupNow nowIso db i fp)). use_count r \<le> max_uses r)"
    unfolding res fst_conv
    by (auto simp: update_where_def cleanupExpired_def)
  show ?thesis using c1 c2 c3 c4 by blast
qed

theorem consumeApproved_exact_witness:
  "distinct (map row_id
      [\<lparr>row_id = ''a1'', created_at = 0, expires_at = 60000, status = Approved,
        required_approvals = 1, required_roles = ''[]'', max_uses = 1, use_count = 0,
        last_used_at = None, approval_actors = ''[]'', approval_actor_roles = ''{}'',
        request_fingerprint = ''fp'', reason = ''r'', metadata = ''{}'',
        resolved_by = None, resolved_at = None\<rparr> :: int ApprovalRecord])
   \<and> snd (consumeApproved 10 11
      [\<lparr>row_id = ''a1'', created_at = 0, expires_at = 60000, status = Approved,
        required_approvals = 1, required_roles = ''[]'', max_uses = 1, use_count = 0,
        last_used_at = None, approval_actors = ''[]'', approval_actor_roles = ''{}'',
        request_fingerprint = ''fp'', reason = ''r'', metadata = ''{}'',
        resolved_by = None, resolved_at = None\<rparr>] ''a1'' ''fp'')
   \<and> map use_count (fst (consumeApproved 10 11
      [\<lparr>row_id = ''a1'', created_at = 0, expires_at = 60000, status = Approved,
        required_approvals = 1, required_roles = ''[]'', max_uses = 1, use_count = 0,
        last_used_at = None, approval_actors = ''[]'', approval_actor_roles = ''{}'',
        request_fingerprint = ''fp'', reason = ''r'', metadata = ''{}'',
        resolved_by = None, resolved_at = None\<rparr>] ''a1'' ''fp'')) = [1]"
proof -
  have keys: "distinct (map row_id
      [\<lparr>row_id = ''a1'', created_at = 0, expires_at = 60000, status = Approved,
        required_approvals = 1, required_roles = ''[]'', max_uses = 1, use_count = 0,
        last_used_at = None, approval_actors = ''[]'', approval_actor_roles = ''{}'',
        request_fingerprint = ''fp'', reason = ''r'', metadata = ''{}'',
        resolved_by = None, resolved_at = None\<rparr> :: int ApprovalRecord])"
    by simp
  show ?thesis
    using keys consumeApproved_exact [OF keys, of 10 11 "''a1''" "''fp''"]
    by (simp add: getById_def)
qed

lemma normalizeMaxUses_range: "1 \<le> normalizeMaxUses v \<and> normalizeMaxUses v \<le> 100"
  by (simp add: normalizeMaxUses_def split: option.splits jsnum.splits)

lemma normalizeMaxUses_fallback:
  "normalizeMaxUses None = 1" "normalizeMaxUses (Some NaN) = 1"
  "normalizeMaxUses (Some PosInf) = 1" "normalizeMaxUses (Some NegInf) = 1"
  by (simp_all add: normalizeMaxUses_def)

lemma cleanupExpired_max_uses [simp]: "map max_uses (cleanupExpired t db) = map max_uses db"
  by (simp add: cleanupExpired_def update_where_def)

lemma latest_mem: "latest rs = Some r \<Longrightarrow> r \<in> set rs"
  by (induction rs arbitrary: r) (auto split: option.splits if_splits)

lemma findPending_mem: "findPending db fp = Some r \<Longrightarrow> r \<in> set db"
  unfolding findPending_def by (drule latest_mem) simp

lemma getById_mem: "getById db i = Some r \<Longrightarrow> r \<in> set db"
  unfolding getById_def by (induction db) (auto split: if_splits)

lemma update_where_memD:
  "x \<in> set (update_where P f xs) \<Longrightarrow> \<exists>y \<in> set xs. x = y \<or> x = f y"
  by (auto simp: update_where_def split: if_splits)

lemma cleanupExpired_memD:
  "x \<in> set (cleanupExpired t db) \<Longrightarrow> \<exists>y \<in> set db. x = y \<or> x = y\<lparr>status := Expired\<rparr>"
  by (auto simp: cleanupExpired_def dest!: update_where_memD)

lemma raiseMaxUses_memD:
  "x \<in> set (raiseMaxUses db e n) \<Longrightarrow> \<exists>y \<in> set db. x = y \<or> x = y\<lparr>max_uses := n\<rparr>"
  by (auto simp: raiseMaxUses_def dest!: update_where_memD split: if_splits)

lemma upgradeQuorum_memD:
  "x \<in> set (fst (upgradeQuorum db e ra rr)) \<Longrightarrow> \<exists>y \<in> set db. max_uses x = max_uses y"
  unfolding upgradeQuorum_def Let_def
  by (auto split: option.splits if_splits dest!: update_where_memD)

lemma upgradeQuorum_result:
  "snd (upgradeQuorum db e ra rr) = Inr (rec, created) \<Longrightarrow>
     \<not> created \<and> (rec = e \<or> (\<exists>y \<in> set db. max_uses rec = max_uses y))"
  unfolding upgradeQuorum_def Let_def
  by (auto split: option.splits if_splits dest!: getById_mem update_where_memD)

lemma insertPending_memD:
  "x \<in> set (fst (insertPending db ca uuid input ra rr mu)) \<Longrightarrow> x \<in> set db \<or> max_uses x = mu"
  unfolding insertPending_def Let_def
  by (auto split: option.splits if_splits)

lemma insertPending_result:
  "snd (insertPending db ca uuid input ra rr mu) = Inr (rec, created) \<Longrightarrow> created \<and> max_uses rec = mu"
  unfolding insertPending_def Let_def
  by (auto split: option.splits if_splits)

text \<open>Every row of the table after the call carries either the normalized request or the
  value an old row had.\<close>

lemma getOrCreatePending_max_uses_rows:
  "r' \<in> set (fst (getOrCreatePending cleanupNow createdAt uuid db input)) \<Longrightarrow>
     max_uses r' = normalizeMaxUses (maxUses input) \<or> (\<exists>r \<in> set db. max_uses r' = max_uses r)"
  unfolding getOrCreatePending_def Let_def
  by (auto split: option.splits
      dest!: upgradeQuorum_memD raiseMaxUses_memD insertPending_memD cleanupExpired_memD)

lemma getOrCreatePending_max_uses_result:
  "snd (getOrCreatePending cleanupNow createdAt uuid db input) = Inr (rec, created) \<Longrightarrow>
     (created \<longrightarrow> max_uses rec = normalizeMaxUses (maxUses input)) \<and>
     (max_uses rec = normalizeMaxUses (maxUses input) \<or> (\<exists>r \<in> set db. max_uses rec = max_uses r))"
  unfolding getOrCreatePending_def Let_def
  by (auto split: option.splits
      dest!: upgradeQuorum_result insertPending_result findPending_mem raiseMaxUses_memD cleanupExpired_memD)

text \<open>
  C8.  \<open>normalizeMaxUses\<close> maps every caller value into \<open>1..100\<close>, a missing or
  non-finite one to 1.  A record created by \<open>getOrCreatePending\<close> carries the
  normalized value, and every row of the table after the call carries the normalized
  value or the value an old row had; so the range \<open>1..100\<close> of \<open>max_uses\<close> is
  preserved on the table.
\<close>

theorem max_uses_clamped:
  "1 \<le> normalizeMaxUses v \<and> normalizeMaxUses v \<le> 100
   \<and> normalizeMaxUses None = 1 \<and> normalizeMaxUses (Some NaN) = 1
   \<and> normalizeMaxUses (Some PosInf) = 1 \<and> normalizeMaxUses (Some NegInf) = 1
   \<and> (\<forall>rec. snd (getOrCreatePending cleanupNow createdAt uuid db input) = Inr (rec, True) \<longrightarrow>
          max_uses rec = normalizeMaxUses (maxUses input))
   \<and> (\<forall>r' \<in> set (fst (getOrCreatePending cleanupNow createdAt uuid db input)).
          max_uses r' = normalizeMaxUses (maxUses input) \<or> (\<exists>r \<in> set db. max_uses r' = max_uses r))
   \<and> ((\<forall>r \<in> set db. 1 \<le> max_uses r \<and> max_uses r \<le> 100) \<longrightarrow>
        (\<forall>r' \<in> set (fst (getOrCreatePending cleanupNow createdAt uuid db input)).
           1 \<le> max_uses r' \<and> max_uses r' \<le> 100))"
proof -
  have rows: "\<forall>r' \<in> set (fst (getOrCreatePending cleanupNow createdAt uuid db input)).
      max_uses r' = normalizeMaxUses (maxUses input) \<or> (\<exists>r \<in> set db. max_uses r' = max_uses r)"
    using getOrCreatePending_max_uses_rows by blast
  have inv: "(\<forall>r \<in> set db. 1 \<le> max_uses r \<and> max_uses r \<le> 100) \<longrightarrow>
        (\<forall>r' \<in> set (fst (getOrCreatePending cleanupNow createdAt uuid db input)).
           1 \<le> max_uses r' \<and> max_uses r' \<le> 100)"
  proof (intro impI ballI)
    fix r' assume old: "\<forall>r \<in> set db. 1 \<le> max_uses r \<and> max_uses r \<le> 100"
      and "r' \<in> set (fst (getOrCreatePending cleanupNow createdAt uuid db input))"
    with rows have "max_uses r' = normalizeMaxUses (maxUses input) \<or> (\<exists>r \<in> set db. max_uses r' = max_uses r)"
      by blast
    then show "1 \<le> max_uses r' \<and> max_uses r' \<le> 100"
      using old normalizeMaxUses_range [of "maxUses input"] by auto
  qed
  have new: "\<forall>rec. snd (getOrCreatePending cleanupNow createdAt uuid db input) = Inr (rec, True) \<longrightarrow>
          max_uses rec = normalizeMaxUses (maxUses input)"
    using getOrCreatePending_max_uses_result by blast
  show ?thesis
    using normalizeMaxUses_range [of v] normalizeMaxUses_fallback rows inv new by blast
qed

lemmas getOrCreatePending_eval =
  getOrCreatePending_def insertPending_def cleanupExpired_def update_where_def findPending_def
  normalizeMaxUses_def normalizeRequiredApprovals_def normalizeRoles_def js_sort_def
  stringify_strings_def stringify_text_def Let_def

theorem max_uses_clamped_witness:
  "snd (getOrCreatePending 5 7 ''u1'' []
        \<lparr>requestFingerprint = ''fp'', reason = ''r'', metadata = JUndefined,
         ttlSeconds = Fin 0, requiredApprovals = None, requiredRoles = None,
         maxUses = Some (Fin 5000)\<rparr>)
     = Inr (\<lparr>row_id = ''u1'', created_at = 7, expires_at = 60007, status = Pending,
             required_approvals = 1, required_roles = ''[]'', max_uses = 100, use_count = 0,
             last_used_at = None, approval_actors = ''[]'', approval_actor_roles = ''{}'',
             request_fingerprint = ''fp'', reason = ''r'', metadata = ''{}'',
             resolved_by = None, resolved_at = None\<rparr>, True)
   \<and> list_all (\<lambda>r'. 1 \<le> max_uses r' \<and> max_uses r' \<le> 100)
        (fst (getOrCreatePending 5 7 ''u1'' []
          \<lparr>requestFingerprint = ''fp'', reason = ''r'', metadata = JUndefined,
           ttlSeconds = Fin 0, requiredApprovals = None, requiredRoles = None,
           maxUses = Some (Fin 5000)\<rparr>))"
proof -
  have created: "snd (getOrCreatePending 5 7 ''u1'' []
        \<lparr>requestFingerprint = ''fp'', reason = ''r'', metadata = JUndefined,
         ttlSeconds = Fin 0, requiredApprovals = None, requiredRoles = None,
         maxUses = Some (Fin 5000)\<rparr>)
     = Inr (\<lparr>row_id = ''u1'', created_at = 7, expires_at = 60007, status = Pending,
             required_approvals = 1, required_roles = ''[]'', max_uses = 100, use_count = 0,
             last_used_at = None, approval_actors = ''[]'', approval_actor_roles = ''{}'',
             request_fingerprint = ''fp'', reason = ''r'', metadata = ''{}'',
             resolved_by = None, resolved_at = None\<rparr>, True)"
    by (simp add: getOrCreatePending_eval)
  show ?thesis
    using created max_uses_clamped [of "Some (Fin 5000)" 5 7 "''u1''" "[]"
        "\<lparr>requestFingerprint = ''fp'', reason = ''r'', metadata = JUndefined,
         ttlSeconds = Fin 0, requiredApprovals = None, requiredRoles = None,
         maxUses = Some (Fin 5000)\<rparr>"]
    by (simp add: list_all_iff)
qed








section \<open>The parsing helpers on their own output\<close>

lemma String_or_empty_JStr [simp]: "String_or_empty (JStr s) = s"
  by (simp add: String_or_empty_def)


lemma parseRoleArray_stringify:
  "parseRoleArray (stringify_strings xs) =
     js_sort (filter (\<lambda>s. s \<noteq> []) (map (\<lambda>v. toLowerCase (trim v)) xs))"
  by (simp add: parseRoleArray_def JSON_parse_strings comp_def)


lemma parseRoleArray_normal:
  "sorted (parseRoleArray raw) \<and> (\<forall>r \<in> set (parseRoleArray raw). toLowerCase (trim r) = r \<and> r \<noteq> [])"
  by (auto simp: parseRoleArray_def js_sort_def split: option.splits jsval.splits)


lemma roles_fixed:
  assumes "sorted xs" "\<forall>r \<in> set xs. toLowerCase (trim r) = r \<and> r \<noteq> []"
  shows "parseRoleArray (stringify_strings xs) = xs"
proof -
  have "filter (\<lambda>s. s \<noteq> []) (map (\<lambda>v. toLowerCase (trim v)) xs) = xs"
    using assms(2) by (induction xs) auto
  then show ?thesis
    unfolding parseRoleArray_stringify js_sort_def using assms(1) by (simp add: sorted_sort_id)
qed








lemma uniq_set [simp]: "set (uniq xs) = set xs"
  by (induction xs rule: uniq.induct) auto












section \<open>Canonical serialization and undefined values\<close>













lemma stableStringify_defined: "v \<noteq> JUndefined \<Longrightarrow> \<exists>t. stableStringify v = Some t"
  by (cases v) (simp_all add: Let_def)













end
